theory Spec2Isabelle
  imports Complex_Main "HOL-Library.AList"
begin

section \<open>Living Canvas: the drawing pipeline and the interaction engine\<close>

text \<open>
  A shallow embedding of the parts of the repository that sequence classification,
  generation and frame polling (the Phaser scene \<^verbatim>\<open>LivingCanvasStage\<close>), of the collision
  rules, and of two server functions (\<^verbatim>\<open>parsePropertiesFromString\<close> and the route
  \<^verbatim>\<open>GET /checkFrames/:hash\<close>).

  JavaScript strings are modelled as \<^typ>\<open>string\<close>, one character for each code point, and
  taken to be text of code points below 256; property
  sets as maps from trait names to values, thrown exceptions as the left summand of a sum
  type, and mutation as explicit state passing on a store of objects.
\<close>

subsection \<open>Strings\<close>

definition upper_letters :: string where
  \<comment> \<open>The letters below code point 256 that have a lower-case form: A to Z, and the
      accented capitals from 0xC0 to 0xDE without the multiplication sign 0xD7.\<close>
  "upper_letters =
     ''ABCDEFGHIJKLMNOPQRSTUVWXYZ'' @
     [CHR 0xC0, CHR 0xC1, CHR 0xC2, CHR 0xC3, CHR 0xC4, CHR 0xC5, CHR 0xC6, CHR 0xC7,
      CHR 0xC8, CHR 0xC9, CHR 0xCA, CHR 0xCB, CHR 0xCC, CHR 0xCD, CHR 0xCE, CHR 0xCF,
      CHR 0xD0, CHR 0xD1, CHR 0xD2, CHR 0xD3, CHR 0xD4, CHR 0xD5, CHR 0xD6,
      CHR 0xD8, CHR 0xD9, CHR 0xDA, CHR 0xDB, CHR 0xDC, CHR 0xDD, CHR 0xDE]"

definition lower_letters :: string where
  "lower_letters =
     ''abcdefghijklmnopqrstuvwxyz'' @
     [CHR 0xE0, CHR 0xE1, CHR 0xE2, CHR 0xE3, CHR 0xE4, CHR 0xE5, CHR 0xE6, CHR 0xE7,
      CHR 0xE8, CHR 0xE9, CHR 0xEA, CHR 0xEB, CHR 0xEC, CHR 0xED, CHR 0xEE, CHR 0xEF,
      CHR 0xF0, CHR 0xF1, CHR 0xF2, CHR 0xF3, CHR 0xF4, CHR 0xF5, CHR 0xF6,
      CHR 0xF8, CHR 0xF9, CHR 0xFA, CHR 0xFB, CHR 0xFC, CHR 0xFD, CHR 0xFE]"

definition toLowerChar :: "char \<Rightarrow> char" where
  \<comment> \<open>\<^verbatim>\<open>String.prototype.toLowerCase\<close> on one character; a character is a code point
      below 256.\<close>
  "toLowerChar c =
     (case map_of (zip upper_letters lower_letters) c of
        Some d \<Rightarrow> d
      | None \<Rightarrow> c)"

definition toLowerCase :: "string \<Rightarrow> string" where
  "toLowerCase s = map toLowerChar s"

definition isWhiteSpace :: "char \<Rightarrow> bool" where
  \<comment> \<open>The characters \<^verbatim>\<open>String.prototype.trim\<close> strips, as far as they fit one byte:
      space, tab, line feed, vertical tab, form feed, carriage return, no-break space.\<close>
  "isWhiteSpace c \<longleftrightarrow>
     c \<in> set [CHR '' '', CHR 0x09, CHR 0x0A, CHR 0x0B, CHR 0x0C, CHR 0x0D, CHR 0xA0]"

definition trim :: "string \<Rightarrow> string" where
  "trim s = rev (dropWhile isWhiteSpace (rev (dropWhile isWhiteSpace s)))"

fun split_comma :: "string \<Rightarrow> string list" where
  \<comment> \<open>\<^verbatim>\<open>s.split(",")\<close>: the empty string gives one empty piece.\<close>
  "split_comma [] = [[]]"
| "split_comma (c # cs) =
     (if c = CHR '','' then [] # split_comma cs
      else (case split_comma cs of
              [] \<Rightarrow> [[c]]
            | w # ws \<Rightarrow> (c # w) # ws))"

definition decimal_digit :: "nat \<Rightarrow> char" where
  "decimal_digit d = ''0123456789'' ! (d mod 10)"

fun string_of_nat :: "nat \<Rightarrow> string" where
  \<comment> \<open>The decimal numeral a template literal prints for a non-negative integer.\<close>
  "string_of_nat n =
     (if n < 10 then [decimal_digit n]
      else string_of_nat (n div 10) @ [decimal_digit n])"

declare string_of_nat.simps [simp del]

subsection \<open>Server: property words to traits\<close>

text \<open>
  \<^verbatim>\<open>parsePropertiesFromString\<close> builds an object literal with fourteen boolean fields
  and then only assigns to fields of that literal. The object is modelled as an
  association list, an assignment \<^verbatim>\<open>properties.k = v\<close> as \<^const>\<open>AList.update\<close>.
\<close>

type_synonym traits = "(string \<times> bool) list"

definition trait_keys :: "string list" where
  "trait_keys =
     [''floats'', ''hovers'', ''falls'', ''drips'', ''douses'', ''solid'', ''heavy'',
      ''burns'', ''explodes'', ''flies'', ''wooden'', ''metal'', ''ice'', ''blows'']"

definition initial_traits :: traits where
  "initial_traits =
     [(''floats'', False), (''hovers'', False), (''falls'', True), (''drips'', False),
      (''douses'', False), (''solid'', True), (''heavy'', False), (''burns'', False),
      (''explodes'', False), (''flies'', False), (''wooden'', False), (''metal'', False),
      (''ice'', False), (''blows'', False)]"

definition assign :: "string \<Rightarrow> bool \<Rightarrow> traits \<Rightarrow> traits" where
  "assign k v p = AList.update k v p"

definition apply_word :: "string \<Rightarrow> traits \<Rightarrow> traits" where
  \<comment> \<open>The body of the \<^verbatim>\<open>switch (word)\<close>, one branch per group of case labels.\<close>
  "apply_word w p =
     (if w \<in> set [''hot'', ''fire'', ''burn'', ''flammable''] then assign ''burns'' True p
      else if w \<in> set [''cold'', ''frozen'', ''ice''] then assign ''ice'' True p
      else if w \<in> set [''heavy'', ''dense'', ''dense''] then assign ''heavy'' True p
      else if w \<in> set [''light'', ''floats'', ''buoyant''] then
        assign ''falls'' False (assign ''heavy'' False (assign ''floats'' True p))
      else if w \<in> set [''fluid'', ''flows'', ''water''] then
        assign ''douses'' True (assign ''drips'' True p)
      else if w \<in> set [''metal'', ''metallic''] then
        assign ''heavy'' True (assign ''metal'' True p)
      else if w \<in> set [''wood'', ''wooden''] then assign ''wooden'' True p
      else if w \<in> set [''wind'', ''air'', ''blows''] then
        assign ''solid'' False (assign ''blows'' True p)
      else if w \<in> set [''explosion'', ''explosive''] then assign ''explodes'' True p
      else if w \<in> set [''flying'', ''flies''] then
        assign ''falls'' False (assign ''flies'' True p)
      else p)"

definition type_overrides :: "string \<Rightarrow> traits \<Rightarrow> traits" where
  "type_overrides objectType p =
     (if objectType = ''fire'' then
        assign ''falls'' True (assign ''solid'' True (assign ''burns'' True p))
      else if objectType = ''candle'' then
        assign ''falls'' True (assign ''solid'' True (assign ''burns'' True p))
      else if objectType = ''flame'' then
        assign ''falls'' True (assign ''solid'' True (assign ''burns'' True p))
      else if objectType = ''ice'' then assign ''ice'' True p
      else if objectType = ''water'' then
        assign ''falls'' True (assign ''douses'' True (assign ''drips'' True p))
      else if objectType = ''wind'' then
        assign ''falls'' False (assign ''solid'' False (assign ''blows'' True p))
      else p)"

definition word_traits :: "string \<Rightarrow> traits" where
  \<comment> \<open>The object after the \<^verbatim>\<open>forEach\<close> over the words, before the type is looked at.\<close>
  "word_traits propertiesStr =
     fold apply_word (map trim (split_comma (toLowerCase propertiesStr))) initial_traits"

definition parsePropertiesFromString :: "string \<Rightarrow> string \<Rightarrow> real \<Rightarrow> traits" where
  "parsePropertiesFromString objectType propertiesStr confidence =
     (let properties = initial_traits;
          words = map trim (split_comma (toLowerCase propertiesStr));
          properties = fold apply_word words properties
      in type_overrides objectType properties)"

subsection \<open>Server: the frame status route\<close>

text \<open>
  \<^verbatim>\<open>GET /checkFrames/:hash\<close>. The file system is a predicate on paths, \<^verbatim>\<open>path.join\<close> a
  parameter, and the handler returns its response together with the paths it passed to
  \<^verbatim>\<open>fs.existsSync\<close>, in order.
\<close>

datatype response =
    Status400 string
  | Json200 (ready: bool) (progress: nat) (total: nat)

definition totalFrames :: nat where
  "totalFrames = 4"

definition frame_file :: "string \<Rightarrow> nat \<Rightarrow> string" where
  "frame_file hash i = ''output_'' @ hash @ ''_frame'' @ string_of_nat i @ ''.png''"

definition framePath :: "(string list \<Rightarrow> string) \<Rightarrow> string \<Rightarrow> nat \<Rightarrow> string" where
  "framePath pjoin hash i = pjoin [pjoin [''generated''], frame_file hash i]"

function frames_loop ::
  "(string list \<Rightarrow> string) \<Rightarrow> (string \<Rightarrow> bool) \<Rightarrow> string \<Rightarrow> nat \<Rightarrow> nat \<times> string list
     \<Rightarrow> nat \<times> string list" where
  "frames_loop pjoin existsSync hash i (readyFrames, checked) =
     (if i < totalFrames then
        (let p = framePath pjoin hash i in
         frames_loop pjoin existsSync hash (i + 1)
           (if existsSync p then readyFrames + 1 else readyFrames, checked @ [p]))
      else (readyFrames, checked))"
  by pat_completeness auto
termination
  by (relation "measure (\<lambda>(pjoin, existsSync, hash, i, acc). totalFrames - i)") auto

declare frames_loop.simps [simp del]

definition checkFrames ::
  "(string list \<Rightarrow> string) \<Rightarrow> (string \<Rightarrow> bool) \<Rightarrow> string option \<Rightarrow> response \<times> string list" where
  "checkFrames pjoin existsSync hash_param =
     (case hash_param of
        None \<Rightarrow> (Status400 ''Hash parameter is required'', [])
      | Some hash \<Rightarrow>
          if hash = [] then (Status400 ''Hash parameter is required'', [])
          else
            (let (readyFrames, checked) = frames_loop pjoin existsSync hash 0 (0, [])
             in (Json200 (readyFrames = totalFrames) readyFrames totalFrames, checked)))"

definition sample_join :: "string list \<Rightarrow> string" where
  \<comment> \<open>A stand-in for \<^verbatim>\<open>path.join\<close> on plain segments, used for concrete instances only.\<close>
  "sample_join ps =
     (case ps of [] \<Rightarrow> ''.'' | p # qs \<Rightarrow> fold (\<lambda>q acc. acc @ ''/'' @ q) qs p)"

definition sample_files :: "string \<Rightarrow> bool" where
  \<comment> \<open>A file system in which frame 2 of the hash \<^verbatim>\<open>ab\<close> has not been written yet.\<close>
  "sample_files p \<longleftrightarrow>
     p \<in> set [''generated/output_ab_frame0.png'', ''generated/output_ab_frame1.png'',
              ''generated/output_ab_frame3.png'']"

subsection \<open>JavaScript values\<close>

text \<open>
  Values that cross the HTTP boundary are JSON values, plus \<^verbatim>\<open>undefined\<close>. A JSON number is
  only ever tested for truthiness here and is modelled by an integer. An object lists its
  own properties; a key is looked up with \<^const>\<open>map_of\<close>.
\<close>

datatype jsval =
    JUndefined
  | JNull
  | JBool bool
  | JNum int
  | JStr string
  | JArr "jsval list"
  | JObj "(string \<times> jsval) list"

datatype error =
    TypeError
  | SyntaxError
  | FetchError
  | Error string
  | ErrorOf jsval

fun truthy :: "jsval \<Rightarrow> bool" where
  "truthy JUndefined = False"
| "truthy JNull = False"
| "truthy (JBool b) = b"
| "truthy (JNum n) = (n \<noteq> 0)"
| "truthy (JStr s) = (s \<noteq> [])"
| "truthy (JArr xs) = True"
| "truthy (JObj kvs) = True"

fun field :: "jsval \<Rightarrow> string \<Rightarrow> jsval" where
  \<comment> \<open>\<^verbatim>\<open>v.k\<close> for a value that is neither \<^verbatim>\<open>undefined\<close> nor \<^verbatim>\<open>null\<close>, for the keys read in
      this program (none of them is a built-in property of strings, numbers or arrays).\<close>
  "field (JObj kvs) k = (case map_of kvs k of Some v \<Rightarrow> v | None \<Rightarrow> JUndefined)"
| "field v k = JUndefined"

definition member :: "jsval \<Rightarrow> string \<Rightarrow> error + jsval" where
  \<comment> \<open>\<^verbatim>\<open>v.k\<close>: reading a property of \<^verbatim>\<open>undefined\<close> or \<^verbatim>\<open>null\<close> throws a TypeError.\<close>
  "member v k = (if v = JUndefined \<or> v = JNull then Inl TypeError else Inr (field v k))"

fun typeof_object :: "jsval \<Rightarrow> bool" where
  \<comment> \<open>\<^verbatim>\<open>typeof v === 'object'\<close>\<close>
  "typeof_object JNull = True"
| "typeof_object (JArr xs) = True"
| "typeof_object (JObj kvs) = True"
| "typeof_object v = False"

fun isArray :: "jsval \<Rightarrow> bool" where
  "isArray (JArr xs) = True"
| "isArray v = False"

fun elements :: "jsval \<Rightarrow> jsval list" where
  "elements (JArr xs) = xs"
| "elements v = []"

subsection \<open>Property sets\<close>

text \<open>
  A property set (\<^verbatim>\<open>WorldObjProp\<close>) is an object from trait names to values, modelled as
  a map. The class \<^verbatim>\<open>WorldObject\<close> is not among the sources: the results of its static
  functions \<^verbatim>\<open>getZeroWorldObjProp\<close> and \<^verbatim>\<open>getDefaultWorldObjProp\<close> are parameters
  \<open>zeroProp\<close> and \<open>defaultProp\<close> of everything that calls them.
\<close>

type_synonym props = "string \<rightharpoonup> jsval"

fun own_props :: "jsval \<Rightarrow> props" where
  \<comment> \<open>The own enumerable properties that a spread \<^verbatim>\<open>{...v}\<close> copies.\<close>
  "own_props (JObj kvs) = map_of kvs"
| "own_props (JArr xs) = map_of (zip (map string_of_nat [0..<length xs]) xs)"
| "own_props v = Map.empty"

definition mark_attributes :: "props \<Rightarrow> jsval list \<Rightarrow> props" where
  \<comment> \<open>\<^verbatim>\<open>for (const key in config) if (attributes.indexOf(key) != -1) config[key] = true\<close>\<close>
  "mark_attributes config attributes =
     (\<lambda>key. if key \<in> dom config \<and> JStr key \<in> set attributes then Some (JBool True)
            else config key)"

definition extractPropertiesFromGeminiData :: "props \<Rightarrow> props \<Rightarrow> jsval \<Rightarrow> error + props" where
  "extractPropertiesFromGeminiData zeroProp defaultProp rawData =
     (let config = zeroProp in
      if rawData = JUndefined \<or> rawData = JNull then Inr defaultProp
      else
        (case member rawData ''properties'' of
           Inl e \<Rightarrow> Inl e
         | Inr properties \<Rightarrow>
             if truthy properties \<and> typeof_object properties
             then Inr (config ++ own_props properties)
             else
               (case member rawData ''attributes'' of
                  Inl e \<Rightarrow> Inl e
                | Inr attributes \<Rightarrow>
                    if truthy attributes \<and> isArray attributes
                    then Inr (mark_attributes config (elements attributes))
                    else Inr defaultProp)))"

definition mergeProperties :: "props \<Rightarrow> props \<Rightarrow> props" where
  \<comment> \<open>\<^verbatim>\<open>finalProperties = {...finalProperties, ...additionalProperties};
      finalProperties.user_generated_obj = true\<close> in \<^verbatim>\<open>processCanvas\<close>, where
      \<^verbatim>\<open>finalProperties\<close> starts as the default set.\<close>
  "mergeProperties defaultProp additionalProperties =
     (defaultProp ++ additionalProperties)(''user_generated_obj'' \<mapsto> JBool True)"

definition has_property_map :: "jsval \<Rightarrow> bool" where
  \<comment> \<open>The response shape with a \<^verbatim>\<open>properties\<close> object (the Ollama format).\<close>
  "has_property_map rawData \<longleftrightarrow>
     truthy (field rawData ''properties'') \<and> typeof_object (field rawData ''properties'')"

definition has_attribute_list :: "jsval \<Rightarrow> bool" where
  \<comment> \<open>The response shape with an \<^verbatim>\<open>attributes\<close> array (the legacy format), tried second.\<close>
  "has_attribute_list rawData \<longleftrightarrow>
     \<not> has_property_map rawData \<and> isArray (field rawData ''attributes'')"

definition sample_vocabulary :: "string list" where
  \<comment> \<open>The traits that the repository's README lists, with \<^verbatim>\<open>rusted\<close>, which the scene reads.
      Used for concrete instances only.\<close>
  "sample_vocabulary =
     [''walks'', ''drives'', ''flies'', ''hovers'', ''propelled'', ''falls'', ''floats'',
      ''heavy'', ''solid'', ''drips'', ''douses'', ''burns'', ''explodes'', ''blows'',
      ''lightning'', ''heal'', ''wooden'', ''metal'', ''ice'', ''magnetic'', ''rusted'',
      ''user_generated_obj'', ''generating'']"

definition sample_zero :: props where
  "sample_zero = map_of (map (\<lambda>k. (k, JBool False)) sample_vocabulary)"

definition sample_default :: props where
  "sample_default = sample_zero(''falls'' \<mapsto> JBool True, ''solid'' \<mapsto> JBool True)"

subsection \<open>Game objects and the scene\<close>

text \<open>
  A particle emitter or a tween is a record of the flags the code reads and writes. A game
  object carries its property set \<^verbatim>\<open>prop\<close> (the field \<open>obj_prop\<close>, absent for a game object
  that is not a \<^verbatim>\<open>WorldObject\<close>), its texture key, and the effects that \<^verbatim>\<open>processCanvas\<close> stops when
  a run fails. Objects live in a store indexed by references, so that two bodies of a
  colliding pair, or two entries of a target list, may denote one object.
\<close>

record emitter =
  sparkle :: string
  emitting :: bool
  following :: "nat option"
  removed :: bool

record tween_handle =
  playing :: bool

datatype obj_class = PlainGameObject | WorldObject | RustedKey | IceCube | IceWall

record gameobj =
  name :: string
  cls :: obj_class
  obj_prop :: "props option"
  texture :: "string option"
  animation :: "string option"
  alpha :: real
  life :: int
  destroyed :: bool
  blinkTween :: "tween_handle option"
  fire :: "emitter option"
  flare :: "emitter option"
  explosion :: "emitter option"
  drips :: "emitter option"
  steam :: "emitter option"
  tween :: "tween_handle option"

record water_state =
  sensor :: nat
  floating :: "nat set"
  splashes :: "(nat \<times> real) list"

record scene =
  children :: "nat list"
  objs :: "nat \<Rightarrow> gameobj option"
  particles :: "nat \<Rightarrow> emitter option"
  next_ref :: nat
  textures :: "string set"
  drawingInProgress :: bool
  mouseDown :: bool
  water :: water_state

record body =
  body_id :: nat
  gameObject :: "nat option"

text \<open>
  The methods of \<^verbatim>\<open>WorldObject\<close> that the scene calls and whose code is not among the
  sources are parameters, collected in one record.
\<close>

record methods =
  canSetFire :: "gameobj \<Rightarrow> bool"
  addFire :: "bool \<Rightarrow> gameobj \<Rightarrow> gameobj"
  addWet :: "gameobj \<Rightarrow> gameobj"
  clearEffects :: "gameobj \<Rightarrow> gameobj"
  createMagneticForce :: "gameobj \<Rightarrow> gameobj"
  updateMagneticField :: "gameobj \<Rightarrow> gameobj"

definition has_trait :: "gameobj \<Rightarrow> string \<Rightarrow> bool" where
  \<comment> \<open>\<^verbatim>\<open>obj.prop?.k\<close> used as a condition.\<close>
  "has_trait obj k =
     (case obj_prop obj of
        None \<Rightarrow> False
      | Some p \<Rightarrow> (case p k of None \<Rightarrow> False | Some v \<Rightarrow> truthy v))"

definition set_trait :: "string \<Rightarrow> jsval \<Rightarrow> gameobj \<Rightarrow> error + gameobj" where
  \<comment> \<open>\<^verbatim>\<open>obj.prop.k = v\<close>: a TypeError when the object has no property set.\<close>
  "set_trait k v obj =
     (case obj_prop obj of
        None \<Rightarrow> Inl TypeError
      | Some p \<Rightarrow> Inr (obj\<lparr>obj_prop := Some (p(k \<mapsto> v))\<rparr>))"

definition setTexture :: "string \<Rightarrow> gameobj \<Rightarrow> gameobj" where
  "setTexture key obj = obj\<lparr>texture := Some key\<rparr>"

definition update_obj :: "nat \<Rightarrow> (gameobj \<Rightarrow> gameobj) \<Rightarrow> scene \<Rightarrow> scene" where
  \<comment> \<open>A method call or an assignment on the object behind a reference.\<close>
  "update_obj r f s =
     (case objs s r of
        None \<Rightarrow> s
      | Some obj \<Rightarrow> s\<lparr>objs := (objs s)(r \<mapsto> f obj)\<rparr>)"

subsection \<open>Water: contact begin and contact end\<close>

text \<open>
  Modelled from the spec: the methods \<^verbatim>\<open>createSplash\<close>, \<^verbatim>\<open>addFloating\<close> and
  \<^verbatim>\<open>removeFloating\<close> of \<^verbatim>\<open>Water\<close>, whose code is not among the sources. The spec has a
  fluid volume that "applies splash/float effects to bodies entering/exiting its sensor
  region" and "strips floating status": the water keeps the set of floating bodies and
  a log of the splashes it made, each with the friction passed to it.
\<close>

definition createSplash :: "nat \<Rightarrow> real \<Rightarrow> water_state \<Rightarrow> water_state" where
  "createSplash b friction w = w\<lparr>splashes := splashes w @ [(b, friction)]\<rparr>"

definition addFloating :: "nat \<Rightarrow> water_state \<Rightarrow> water_state" where
  "addFloating b w = w\<lparr>floating := insert b (floating w)\<rparr>"

definition removeFloating :: "nat \<Rightarrow> water_state \<Rightarrow> water_state" where
  "removeFloating b w = w\<lparr>floating := floating w - {b}\<rparr>"

definition on_water :: "(water_state \<Rightarrow> water_state) \<Rightarrow> scene \<Rightarrow> scene" where
  "on_water f s = s\<lparr>water := f (water s)\<rparr>"

definition wet_gameObject :: "methods \<Rightarrow> body \<Rightarrow> scene \<Rightarrow> scene" where
  \<comment> \<open>\<^verbatim>\<open>body.gameObject?.addWet()\<close>\<close>
  "wet_gameObject m b s =
     (case gameObject b of
        None \<Rightarrow> s
      | Some r \<Rightarrow> update_obj r (addWet m) s)"

definition enter_water :: "methods \<Rightarrow> real \<Rightarrow> body \<Rightarrow> scene \<Rightarrow> scene" where
  \<comment> \<open>The three calls made for the body that meets the sensor at contact begin.\<close>
  "enter_water m frictionWater b s =
     wet_gameObject m b
       (on_water (addFloating (body_id b))
          (on_water (createSplash (body_id b) frictionWater) s))"

definition strip_floating :: "body \<Rightarrow> nat \<Rightarrow> scene \<Rightarrow> error + scene" where
  \<comment> \<open>\<^verbatim>\<open>water.removeFloating(body); gameObject.prop.floats = false\<close>, for the body and
      the game object on the other side of a heavy one.\<close>
  "strip_floating b r s =
     (let s1 = on_water (removeFloating (body_id b)) s in
      case objs s1 r of
        None \<Rightarrow> Inr s1
      | Some obj \<Rightarrow>
          (case set_trait ''floats'' (JBool False) obj of
             Inl e \<Rightarrow> Inl e
           | Inr obj' \<Rightarrow> Inr (s1\<lparr>objs := (objs s1)(r \<mapsto> obj')\<rparr>)))"

definition heavy_ref :: "scene \<Rightarrow> nat \<Rightarrow> bool" where
  "heavy_ref s r = (case objs s r of None \<Rightarrow> False | Some obj \<Rightarrow> has_trait obj ''heavy'')"

definition collisionstart_pair ::
  "methods \<Rightarrow> real \<Rightarrow> body \<times> body \<Rightarrow> scene \<Rightarrow> error + scene" where
  \<comment> \<open>One iteration of the loop of the \<^verbatim>\<open>collisionstart\<close> handler of
      \<^verbatim>\<open>registerCollision\<close>.\<close>
  "collisionstart_pair m frictionWater pair s =
     (let bodyA = fst pair; bodyB = snd pair;
          s1 = (if body_id bodyA = sensor (water s) then enter_water m frictionWater bodyB s
                else s);
          s2 = (if body_id bodyB = sensor (water s1) then enter_water m frictionWater bodyA s1
                else s1)
      in case (gameObject bodyA, gameObject bodyB) of
           (Some gameObjectA, Some gameObjectB) \<Rightarrow>
             (case (if heavy_ref s2 gameObjectA then strip_floating bodyB gameObjectB s2
                    else Inr s2) of
                Inl e \<Rightarrow> Inl e
              | Inr s3 \<Rightarrow>
                  if heavy_ref s3 gameObjectB then strip_floating bodyA gameObjectA s3
                  else Inr s3)
         | _ \<Rightarrow> Inr s2)"

fun collisionstart :: "methods \<Rightarrow> real \<Rightarrow> (body \<times> body) list \<Rightarrow> scene \<Rightarrow> error + scene" where
  "collisionstart m frictionWater [] s = Inr s"
| "collisionstart m frictionWater (pair # pairs) s =
     (case collisionstart_pair m frictionWater pair s of
        Inl e \<Rightarrow> Inl e
      | Inr s' \<Rightarrow> collisionstart m frictionWater pairs s')"

definition leave_water :: "real \<Rightarrow> body \<Rightarrow> scene \<Rightarrow> scene" where
  "leave_water frictionAir b s =
     on_water (removeFloating (body_id b))
       (on_water (createSplash (body_id b) frictionAir) s)"

definition collisionend_pair :: "real \<Rightarrow> body \<times> body \<Rightarrow> scene \<Rightarrow> scene" where
  \<comment> \<open>One iteration of the loop of the \<^verbatim>\<open>collisionend\<close> handler.\<close>
  "collisionend_pair frictionAir pair s =
     (let bodyA = fst pair; bodyB = snd pair;
          s1 = (if body_id bodyA = sensor (water s) then leave_water frictionAir bodyB s else s)
      in if body_id bodyB = sensor (water s1) then leave_water frictionAir bodyA s1 else s1)"

definition collisionend :: "real \<Rightarrow> (body \<times> body) list \<Rightarrow> scene \<Rightarrow> scene" where
  "collisionend frictionAir pairs s = fold (collisionend_pair frictionAir) pairs s"

subsection \<open>Continuing contact: ignition and conduction\<close>

definition flammable :: "gameobj \<Rightarrow> bool" where
  \<comment> \<open>\<^verbatim>\<open>obj.prop?.wooden || obj.prop?.ice\<close>\<close>
  "flammable obj \<longleftrightarrow> has_trait obj ''wooden'' \<or> has_trait obj ''ice''"

definition clear_rusted :: "gameobj \<Rightarrow> gameobj" where
  \<comment> \<open>\<^verbatim>\<open>obj.prop.rusted = false\<close>, reached only under \<^verbatim>\<open>obj.prop?.rusted\<close>, so on an object
      that has a property set.\<close>
  "clear_rusted obj = obj\<lparr>obj_prop := map_option (\<lambda>p. p(''rusted'' \<mapsto> JBool False)) (obj_prop obj)\<rparr>"

definition conduct :: "gameobj \<Rightarrow> gameobj" where
  \<comment> \<open>What the collision handler does to the object touched by a lightning source:
      \<^verbatim>\<open>if (B.prop?.rusted) { B.prop.rusted = false; B.setTexture('key'); }\<close>\<close>
  "conduct obj = (if has_trait obj ''rusted'' then setTexture ''key'' (clear_rusted obj) else obj)"

definition ignite_step :: "methods \<Rightarrow> nat \<Rightarrow> nat \<Rightarrow> scene \<Rightarrow> scene" where
  \<comment> \<open>\<^verbatim>\<open>if (WorldObject.canSetFire(A)) if (B.prop?.wooden || B.prop?.ice) B.addFire()\<close>;
      the omitted argument of \<^verbatim>\<open>addFire\<close> is falsy.\<close>
  "ignite_step m a b s =
     (case (objs s a, objs s b) of
        (Some objA, Some objB) \<Rightarrow>
          if canSetFire m objA \<and> flammable objB then update_obj b (addFire m False) s else s
      | _ \<Rightarrow> s)"

definition conduct_step :: "nat \<Rightarrow> nat \<Rightarrow> scene \<Rightarrow> scene" where
  \<comment> \<open>\<^verbatim>\<open>if (A.prop?.lightning) if (B.prop?.rusted) { ... }\<close>\<close>
  "conduct_step a b s =
     (case (objs s a, objs s b) of
        (Some objA, Some objB) \<Rightarrow>
          if has_trait objA ''lightning'' then update_obj b conduct s else s
      | _ \<Rightarrow> s)"

definition collisionactive_pair :: "methods \<Rightarrow> body \<times> body \<Rightarrow> scene \<Rightarrow> scene" where
  \<comment> \<open>One iteration of the loop of the \<^verbatim>\<open>collisionactive\<close> handler of
      \<^verbatim>\<open>registerCollisionActive\<close>.\<close>
  "collisionactive_pair m pair s =
     (case (gameObject (fst pair), gameObject (snd pair)) of
        (Some gameObjectA, Some gameObjectB) \<Rightarrow>
          conduct_step gameObjectB gameObjectA
            (ignite_step m gameObjectB gameObjectA
               (conduct_step gameObjectA gameObjectB
                  (ignite_step m gameObjectA gameObjectB s)))
      | _ \<Rightarrow> s)"

definition collisionactive :: "methods \<Rightarrow> (body \<times> body) list \<Rightarrow> scene \<Rightarrow> scene" where
  "collisionactive m pairs s = fold (collisionactive_pair m) pairs s"

definition conduction_view :: "gameobj \<Rightarrow> (bool \<times> bool) option \<times> string option" where
  \<comment> \<open>What the conduction rule reads and writes of an object: whether it is rusted,
      whether it is a lightning source, and its texture.\<close>
  "conduction_view obj =
     (map_option (\<lambda>p. (has_trait obj ''rusted'', has_trait obj ''lightning'')) (obj_prop obj),
      texture obj)"

definition scene_view :: "scene \<Rightarrow> nat \<Rightarrow> ((bool \<times> bool) option \<times> string option) option" where
  "scene_view s r = map_option conduction_view (objs s r)"

subsection \<open>The command interface\<close>

text \<open>
  \<^verbatim>\<open>processCommand\<close> resolves a target selector to a list of references and applies the
  action of the verb to each. Where a handler throws, the result is \<open>Inl\<close> and the state
  it leaves behind is not tracked.
\<close>

definition is_WorldObject :: "gameobj \<Rightarrow> bool" where
  \<comment> \<open>\<^verbatim>\<open>object instanceof WorldObject\<close>; the other classes extend \<^verbatim>\<open>WorldObject\<close>.\<close>
  "is_WorldObject obj \<longleftrightarrow> cls obj \<noteq> PlainGameObject"

definition matches :: "props \<Rightarrow> (string \<times> jsval) list \<Rightarrow> bool" where
  \<comment> \<open>\<^verbatim>\<open>Object.keys(source).every(key => obj.hasOwnProperty(key) && obj[key] === source[key])\<close>\<close>
  "matches p source = list_all (\<lambda>(key, v). p key = Some v) source"

definition keep_object :: "scene \<Rightarrow> (string \<times> jsval) list option \<Rightarrow> nat \<Rightarrow> error + bool" where
  \<comment> \<open>The body of the \<^verbatim>\<open>forEach\<close> of \<^verbatim>\<open>getWorldObjectList\<close>: is the child pushed?\<close>
  "keep_object s flt r =
     (case objs s r of
        None \<Rightarrow> Inr False
      | Some obj \<Rightarrow>
          if \<not> is_WorldObject obj then Inr False
          else
            (case flt of
               None \<Rightarrow> Inr True
             | Some source \<Rightarrow>
                 if source = [] then Inr True
                 else
                   (case obj_prop obj of
                      None \<Rightarrow> Inl TypeError
                    | Some p \<Rightarrow> Inr (matches p source))))"

fun world_objects ::
  "scene \<Rightarrow> (string \<times> jsval) list option \<Rightarrow> nat list \<Rightarrow> error + nat list" where
  "world_objects s flt [] = Inr []"
| "world_objects s flt (r # rs) =
     (case keep_object s flt r of
        Inl e \<Rightarrow> Inl e
      | Inr keep \<Rightarrow>
          (case world_objects s flt rs of
             Inl e \<Rightarrow> Inl e
           | Inr rest \<Rightarrow> Inr (if keep then r # rest else rest)))"

definition getWorldObjectList :: "scene \<Rightarrow> (string \<times> jsval) list option \<Rightarrow> error + nat list" where
  "getWorldObjectList s flt = world_objects s flt (children s)"

fun last_created :: "scene \<Rightarrow> nat list \<Rightarrow> nat option \<Rightarrow> error + nat option" where
  "last_created s [] found = Inr found"
| "last_created s (r # rs) found =
     (case objs s r of
        None \<Rightarrow> last_created s rs found
      | Some obj \<Rightarrow>
          if is_WorldObject obj then
            (case obj_prop obj of
               None \<Rightarrow> Inl TypeError
             | Some p \<Rightarrow>
                 last_created s rs
                   (if has_trait obj ''user_generated_obj'' then Some r else found))
          else last_created s rs found)"

definition getLastCreatedObject :: "scene \<Rightarrow> error + nat option" where
  "getLastCreatedObject s = last_created s (children s) None"

definition named :: "scene \<Rightarrow> string \<Rightarrow> nat \<Rightarrow> bool" where
  \<comment> \<open>\<^verbatim>\<open>commandJson.target && obj.name.toLowerCase() === commandJson.target.toLowerCase()\<close>\<close>
  "named s target r =
     (case objs s r of
        None \<Rightarrow> False
      | Some obj \<Rightarrow> target \<noteq> [] \<and> toLowerCase (name obj) = toLowerCase target)"

definition resolve_targets :: "scene \<Rightarrow> string \<Rightarrow> error + nat list option" where
  \<comment> \<open>The \<^verbatim>\<open>switch (commandJson.target)\<close>; \<open>None\<close> is the early \<^verbatim>\<open>return\<close>. In the last
      case \<^verbatim>\<open>filter[target] = true\<close> gives the filter one own key, except for the target
      \<^verbatim>\<open>__proto__\<close>, where the assignment creates no key and the filter stays empty.\<close>
  "resolve_targets s target =
     (if target = [] then Inr None
      else if target = ''all'' then map_sum id Some (getWorldObjectList s None)
      else if target = ''last_created'' \<or> target = ''last_object'' then
        (case getLastCreatedObject s of
           Inl e \<Rightarrow> Inl e
         | Inr None \<Rightarrow> Inr (Some [])
         | Inr (Some r) \<Rightarrow> map_sum id (\<lambda>l. Some (case l of None \<Rightarrow> [] | Some r' \<Rightarrow> [r']))
                             (getLastCreatedObject s))
      else
        (case getWorldObjectList s None of
           Inl e \<Rightarrow> Inl e
         | Inr everything \<Rightarrow>
             (case getWorldObjectList s
                     (Some (if target = ''__proto__'' then [] else [(target, JBool True)])) of
                Inl e \<Rightarrow> Inl e
              | Inr with_trait \<Rightarrow> Inr (Some (filter (named s target) everything @ with_trait)))))"

fun for_each :: "(gameobj \<Rightarrow> error + gameobj) \<Rightarrow> nat list \<Rightarrow> scene \<Rightarrow> error + scene" where
  \<comment> \<open>\<^verbatim>\<open>targets.forEach((target) => ...)\<close> on the store.\<close>
  "for_each f [] s = Inr s"
| "for_each f (r # rs) s =
     (case objs s r of
        None \<Rightarrow> for_each f rs s
      | Some obj \<Rightarrow>
          (case f obj of
             Inl e \<Rightarrow> Inl e
           | Inr obj' \<Rightarrow> for_each f rs (s\<lparr>objs := (objs s)(r \<mapsto> obj')\<rparr>)))"

definition burn_target :: "methods \<Rightarrow> (gameobj \<Rightarrow> int) \<Rightarrow> gameobj \<Rightarrow> error + gameobj" where
  \<comment> \<open>The action of \<^verbatim>\<open>destroy\<close> and \<^verbatim>\<open>setfire\<close>; they differ in the life they assign.\<close>
  "burn_target m new_life target =
     (case set_trait ''explodes'' (JBool True) (addFire m True (clearEffects m target)) of
        Inl e \<Rightarrow> Inl e
      | Inr t \<Rightarrow> Inr (t\<lparr>life := new_life target\<rparr>))"

definition magnetize_target :: "methods \<Rightarrow> gameobj \<Rightarrow> error + gameobj" where
  "magnetize_target m target =
     (case set_trait ''metal'' (JBool True) target of
        Inl e \<Rightarrow> Inl e
      | Inr t1 \<Rightarrow>
          (case set_trait ''magnetic'' (JBool True) t1 of
             Inl e \<Rightarrow> Inl e
           | Inr t2 \<Rightarrow> Inr (updateMagneticField m (createMagneticForce m t2))))"

definition electrify_target :: "gameobj \<Rightarrow> gameobj" where
  \<comment> \<open>\<^verbatim>\<open>if (target.prop?.rusted) { target.prop.rusted = false;
        if (target instanceof RustedKey) target.setTexture('key'); }\<close>\<close>
  "electrify_target target =
     (if has_trait target ''rusted'' then
        (let t = clear_rusted target in
         if cls target = RustedKey then setTexture ''key'' t else t)
      else target)"

definition str_toLowerCase :: "jsval \<Rightarrow> error + string" where
  \<comment> \<open>\<^verbatim>\<open>v.toLowerCase()\<close>: a TypeError unless \<open>v\<close> is a string.\<close>
  "str_toLowerCase v = (case v of JStr s \<Rightarrow> Inr (toLowerCase s) | _ \<Rightarrow> Inl TypeError)"

definition apply_verb ::
  "methods \<Rightarrow> (gameobj \<Rightarrow> int) \<Rightarrow> string \<Rightarrow> nat list \<Rightarrow> scene \<Rightarrow> error + scene" where
  \<comment> \<open>The \<^verbatim>\<open>switch (commandJson.verb)\<close>; \<open>between\<close> is the draw of
      \<^verbatim>\<open>Phaser.Math.Between(100, 300)\<close> for a target.\<close>
  "apply_verb m between verb targets s =
     (if verb = ''destroy'' then for_each (burn_target m (\<lambda>t. 0)) targets s
      else if verb = ''setfire'' then for_each (burn_target m between) targets s
      else if verb = ''douse'' then for_each (\<lambda>t. Inr (addWet m t)) targets s
      else if verb = ''magnetize'' then for_each (magnetize_target m) targets s
      else if verb = ''electrify'' then for_each (\<lambda>t. Inr (electrify_target t)) targets s
      else Inr s)"

definition processCommand ::
  "methods \<Rightarrow> (gameobj \<Rightarrow> int) \<Rightarrow> jsval \<Rightarrow> scene \<Rightarrow> error + scene" where
  "processCommand m between commandJson s =
     (case member commandJson ''verb'' of
        Inl e \<Rightarrow> Inl e
      | Inr v \<Rightarrow>
          (case str_toLowerCase v of
             Inl e \<Rightarrow> Inl e
           | Inr verb \<Rightarrow>
               (case str_toLowerCase (field commandJson ''target'') of
                  Inl e \<Rightarrow> Inl e
                | Inr target \<Rightarrow>
                    (case resolve_targets s target of
                       Inl e \<Rightarrow> Inl e
                     | Inr None \<Rightarrow> Inr s
                     | Inr (Some targets) \<Rightarrow> apply_verb m between verb targets s))))"

subsection \<open>HTTP calls of the scene\<close>

text \<open>
  A \<^verbatim>\<open>fetch\<close> either rejects or yields a response. Of a response the code reads
  \<^verbatim>\<open>ok\<close>, \<^verbatim>\<open>status\<close>, whether \<^verbatim>\<open>body\<close> is \<^verbatim>\<open>null\<close>, the text of the body, and the body parsed
  as JSON (\<open>None\<close> when \<^verbatim>\<open>response.json()\<close> rejects).
\<close>

record http_response =
  ok :: bool
  status :: nat
  body_null :: bool
  body_text :: string
  body_json :: "jsval option"

definition analyzeDrawingWithOllama :: "error + http_response \<Rightarrow> jsval" where
  \<comment> \<open>Every failure inside the \<^verbatim>\<open>try\<close> ends in \<^verbatim>\<open>return null\<close>.\<close>
  "analyzeDrawingWithOllama fetched =
     (case fetched of
        Inl e \<Rightarrow> JNull
      | Inr response \<Rightarrow>
          if \<not> ok response then JNull
          else
            (case body_json response of
               None \<Rightarrow> JNull
             | Some result \<Rightarrow>
                 (case member result ''success'' of
                    Inl e \<Rightarrow> JNull
                  | Inr success \<Rightarrow>
                      if truthy success then
                        JObj [(''type'', field result ''objectType''),
                              (''confidence'', field result ''confidence''),
                              (''description'', field result ''description''),
                              (''properties'', field result ''properties'')]
                      else JNull)))"

definition sendImageDataToServerForAnalysis :: "error + http_response \<Rightarrow> error + jsval" where
  "sendImageDataToServerForAnalysis fetched =
     (case fetched of
        Inl e \<Rightarrow> Inl e
      | Inr response \<Rightarrow>
          if \<not> ok response then Inr JNull
          else if \<not> body_null response then
            (case body_json response of
               None \<Rightarrow> Inl SyntaxError
             | Some res \<Rightarrow> Inr res)
          else Inr JUndefined)"

definition startsWith :: "string \<Rightarrow> string \<Rightarrow> bool" where
  "startsWith s prefix \<longleftrightarrow> take (length prefix) s = prefix"

definition sendToImageGenerationBackend :: "string \<Rightarrow> error + http_response \<Rightarrow> error + jsval" where
  \<comment> \<open>The \<^verbatim>\<open>catch\<close> logs and rethrows, so every error leaves the function.\<close>
  "sendToImageGenerationBackend generatorType fetched =
     (case fetched of
        Inl e \<Rightarrow> Inl e
      | Inr response \<Rightarrow>
          if \<not> ok response then
            Inl (Error (''HTTP '' @ string_of_nat (status response) @ '': '' @ body_text response))
          else if generatorType = ''veo'' then
            (case body_json response of
               None \<Rightarrow> Inl SyntaxError
             | Some result \<Rightarrow>
                 (case member result ''error'' of
                    Inl e \<Rightarrow> Inl e
                  | Inr err \<Rightarrow>
                      if truthy err then Inl (ErrorOf err) else Inr (field result ''hash'')))
          else
            (let b64 = body_text response in
             if startsWith b64 ''Error:'' then Inl (Error (drop 6 b64))
             else if b64 = [] then Inl (Error ''Received empty image data'')
             else Inr (JStr b64)))"

subsection \<open>Server: the moderation gate of image generation\<close>











subsection \<open>Emitters, tweens and the life of an object in the scene\<close>

definition add_particles :: "string \<Rightarrow> scene \<Rightarrow> nat \<times> scene" where
  \<comment> \<open>\<^verbatim>\<open>this.add.particles(0, 0, texture, config)\<close>: a new emitter on the display list.\<close>
  "add_particles tex s =
     (let r = next_ref s in
      (r, s\<lparr>children := children s @ [r],
             particles := (particles s)
               (r \<mapsto> \<lparr>sparkle = tex, emitting = True, following = None, removed = False\<rparr>),
             next_ref := Suc r\<rparr>))"

definition createLoadingParticles :: "string \<Rightarrow> scene \<Rightarrow> nat \<times> scene" where
  "createLoadingParticles imageGenerator s =
     (let sparkleTexture =
            (if imageGenerator = ''gemini'' then ''gemini_sparkle''
             else if imageGenerator = ''imagen'' then ''imagen_sparkle''
             else if imageGenerator = ''veo'' then ''imagen_sparkle''
             else ''gemini_sparkle'')
      in add_particles sparkleTexture s)"

definition on_particles :: "nat \<Rightarrow> (emitter \<Rightarrow> emitter) \<Rightarrow> scene \<Rightarrow> scene" where
  "on_particles r f s =
     (case particles s r of
        None \<Rightarrow> s
      | Some e \<Rightarrow> s\<lparr>particles := (particles s)(r \<mapsto> f e)\<rparr>)"

definition startFollow :: "nat \<Rightarrow> nat \<Rightarrow> scene \<Rightarrow> scene" where
  "startFollow r target s = on_particles r (\<lambda>e. e\<lparr>following := Some target\<rparr>) s"

definition stop_particles :: "nat \<Rightarrow> scene \<Rightarrow> scene" where
  "stop_particles r s = on_particles r (\<lambda>e. e\<lparr>emitting := False\<rparr>) s"

definition destroy_particles :: "nat \<Rightarrow> scene \<Rightarrow> scene" where
  "destroy_particles r s =
     (on_particles r (\<lambda>e. e\<lparr>removed := True\<rparr>) s)\<lparr>children := removeAll r (children s)\<rparr>"

definition destroy_object :: "nat \<Rightarrow> scene \<Rightarrow> scene" where
  \<comment> \<open>\<^verbatim>\<open>obj.destroy()\<close>: the object leaves the display list and is marked destroyed.\<close>
  "destroy_object r s =
     (update_obj r (\<lambda>obj. obj\<lparr>destroyed := True\<rparr>) s)\<lparr>children := removeAll r (children s)\<rparr>"

definition add_userobject :: "gameobj \<Rightarrow> scene \<Rightarrow> nat \<times> scene" where
  \<comment> \<open>\<^verbatim>\<open>this.add.userobject(...)\<close> puts the object that the factory built on the display
      list.\<close>
  "add_userobject obj s =
     (let r = next_ref s in
      (r, s\<lparr>children := children s @ [r], objs := (objs s)(r \<mapsto> obj), next_ref := Suc r\<rparr>))"

definition stop_blink :: "gameobj \<Rightarrow> gameobj" where
  \<comment> \<open>\<^verbatim>\<open>if (obj.blinkTween) { obj.blinkTween.stop(); obj.setAlpha(1); }\<close>\<close>
  "stop_blink obj =
     (case blinkTween obj of
        None \<Rightarrow> obj
      | Some t \<Rightarrow> obj\<lparr>blinkTween := Some (t\<lparr>playing := False\<rparr>), alpha := 1\<rparr>)"

definition stop_effect :: "emitter option \<Rightarrow> emitter option" where
  \<comment> \<open>\<^verbatim>\<open>if (obj.fire && !obj.fire.destroyed) obj.fire.stop()\<close>, for each kind of effect.\<close>
  "stop_effect eff = map_option (\<lambda>e. if removed e then e else e\<lparr>emitting := False\<rparr>) eff"

definition stop_effects :: "gameobj \<Rightarrow> gameobj" where
  "stop_effects obj =
     obj\<lparr>fire := stop_effect (fire obj), flare := stop_effect (flare obj),
         explosion := stop_effect (explosion obj), drips := stop_effect (drips obj),
         steam := stop_effect (steam obj),
         tween := map_option (\<lambda>t. t\<lparr>playing := False\<rparr>) (tween obj)\<rparr>"

text \<open>
  Modelled from the spec: the method \<^verbatim>\<open>updateObject(textureKey, properties)\<close> of
  \<^verbatim>\<open>WorldObject\<close>, whose code is not among the sources. The spec has finalising "attach
  the final asset ... and the resolved Property Set to the entity": the object takes the
  texture key, when one is given, and the property set.
\<close>

definition updateObject :: "string option \<Rightarrow> props option \<Rightarrow> gameobj \<Rightarrow> gameobj" where
  "updateObject key properties obj =
     obj\<lparr>texture := (case key of None \<Rightarrow> texture obj | Some k \<Rightarrow> Some k),
         obj_prop := properties\<rparr>"

subsection \<open>Frame polling\<close>

text \<open>
  One round of polling reads two responses (the error file, then the frame status) and,
  when the status is ready, loads the four frames. The responses and the outcome of each
  load are inputs, one record for each round. Waiting between rounds is not modelled.
  \<^verbatim>\<open>createAndPlayAnimation\<close>, which builds the animated replacement of the entity on
  success, is a parameter \<open>animate\<close>. The function returns the branch it ended in together
  with the scene.
\<close>

record poll_round =
  error_check :: "error + http_response"
  frames_check :: "error + http_response"
  frame_loads :: "nat \<Rightarrow> bool"

datatype poll_outcome = Animated | Fallback

definition maxRetries :: nat where
  "maxRetries = 30"

definition frame_key :: "string \<Rightarrow> nat \<Rightarrow> string" where
  "frame_key hash i = ''genframe_'' @ hash @ ''_'' @ string_of_nat i"

definition checkFrameStatus :: "poll_round \<Rightarrow> error + jsval" where
  "checkFrameStatus rd =
     (case error_check rd of
        Inl e \<Rightarrow> Inl e
      | Inr errorResponse \<Rightarrow>
          if ok errorResponse then
            (case body_json errorResponse of
               None \<Rightarrow> Inl SyntaxError
             | Some errorData \<Rightarrow>
                 (case member errorData ''error'' of
                    Inl e \<Rightarrow> Inl e
                  | Inr msg \<Rightarrow>
                      if truthy msg then Inl (ErrorOf msg)
                      else Inl (Error ''Failed to generate video'')))
          else if status errorResponse \<noteq> 404 then
            Inl (Error (''Unexpected error checking status: ''
                        @ string_of_nat (status errorResponse)))
          else
            (case frames_check rd of
               Inl e \<Rightarrow> Inl e
             | Inr response \<Rightarrow>
                 if \<not> ok response then
                   Inl (Error (''HTTP error! status: '' @ string_of_nat (status response)))
                 else
                   (case body_json response of
                      None \<Rightarrow> Inl SyntaxError
                    | Some data \<Rightarrow> Inr data)))"

definition tryLoadFrames :: "string \<Rightarrow> poll_round \<Rightarrow> scene \<Rightarrow> bool \<times> scene" where
  \<comment> \<open>The promise resolves to \<^verbatim>\<open>false\<close> at the first load error, to \<^verbatim>\<open>true\<close> when the
      loader completes without one; the frames that did load are textures afterwards.\<close>
  "tryLoadFrames hash rd s =
     (list_all (frame_loads rd) [0, 1, 2, 3],
      s\<lparr>textures := textures s \<union> set (map (frame_key hash) (filter (frame_loads rd) [0, 1, 2, 3]))\<rparr>)"

definition remove_frame_textures :: "string \<Rightarrow> string set \<Rightarrow> string set" where
  \<comment> \<open>\<^verbatim>\<open>for (i = 0; i < 4; i++) if (textures.exists(frameKey)) textures.remove(frameKey)\<close>\<close>
  "remove_frame_textures hash T =
     fold (\<lambda>i T. if frame_key hash i \<in> T then T - {frame_key hash i} else T) [0, 1, 2, 3] T"

definition handleVeoFailure :: "bool \<Rightarrow> string \<Rightarrow> nat option \<Rightarrow> scene \<Rightarrow> scene" where
  \<comment> \<open>\<open>placeholder_loads\<close>: whether the static image \<^verbatim>\<open>generated/output_{hash}.png\<close> loads
      when it is requested here. The loader's \<^verbatim>\<open>complete\<close> callback is run at once.\<close>
  "handleVeoFailure placeholder_loads hash phaserObj s =
     (let s1 = s\<lparr>textures := remove_frame_textures hash (textures s)\<rparr> in
      case phaserObj of
        None \<Rightarrow> s1
      | Some r \<Rightarrow>
          (let s2 = update_obj r stop_blink s1 in
           if hash \<in> textures s2 then
             update_obj r (\<lambda>obj. updateObject (Some hash) (obj_prop obj) obj) s2
           else
             (let s3 = (if placeholder_loads then s2\<lparr>textures := insert hash (textures s2)\<rparr>
                        else s2)
              in update_obj r
                   (\<lambda>obj. if destroyed obj then obj
                          else updateObject (Some hash) (obj_prop obj) obj) s3)))"

function poll_loop ::
  "(string \<Rightarrow> string list \<Rightarrow> nat option \<Rightarrow> scene \<Rightarrow> scene) \<Rightarrow> (nat \<Rightarrow> poll_round) \<Rightarrow> bool
     \<Rightarrow> string \<Rightarrow> nat option \<Rightarrow> nat \<Rightarrow> scene \<Rightarrow> poll_outcome \<times> scene" where
  "poll_loop animate rounds placeholder_loads hash phaserObj retryCount s =
     (if retryCount < maxRetries then
        (case checkFrameStatus (rounds retryCount) of
           Inl e \<Rightarrow> (Fallback, handleVeoFailure placeholder_loads hash phaserObj s)
         | Inr status_data \<Rightarrow>
             (case member status_data ''ready'' of
                Inl e \<Rightarrow> (Fallback, handleVeoFailure placeholder_loads hash phaserObj s)
              | Inr rdy \<Rightarrow>
                  if truthy rdy then
                    (let loaded = tryLoadFrames hash (rounds retryCount) s in
                     if fst loaded then
                       (Animated,
                        animate hash (map (frame_key hash) [0, 1, 2, 3]) phaserObj (snd loaded))
                     else poll_loop animate rounds placeholder_loads hash phaserObj
                            (retryCount + 1) (snd loaded))
                  else poll_loop animate rounds placeholder_loads hash phaserObj
                         (retryCount + 1) s))
      else (Fallback, handleVeoFailure placeholder_loads hash phaserObj s))"
  by pat_completeness auto
termination
  by (relation "measure (\<lambda>(animate, rounds, placeholder_loads, hash, phaserObj, retryCount, s).
        maxRetries - retryCount)") auto

declare poll_loop.simps [simp del]

definition pollForFramesAndShowAnimation ::
  "(string \<Rightarrow> string list \<Rightarrow> nat option \<Rightarrow> scene \<Rightarrow> scene) \<Rightarrow> (nat \<Rightarrow> poll_round) \<Rightarrow> bool
     \<Rightarrow> string \<Rightarrow> nat option \<Rightarrow> scene \<Rightarrow> poll_outcome \<times> scene" where
  "pollForFramesAndShowAnimation animate rounds placeholder_loads hash phaserObj s =
     poll_loop animate rounds placeholder_loads hash phaserObj 0 s"

definition round_succeeds :: "poll_round \<Rightarrow> bool" where
  \<comment> \<open>The status check reports ready and all four frames load.\<close>
  "round_succeeds rd \<longleftrightarrow>
     (case checkFrameStatus rd of
        Inl e \<Rightarrow> False
      | Inr status_data \<Rightarrow>
          truthy (field status_data ''ready'') \<and> list_all (frame_loads rd) [0, 1, 2, 3])"

definition round_fails :: "poll_round \<Rightarrow> bool" where
  \<comment> \<open>An error is observed: an error file, an unexpected status, a rejected request, or a
      status that cannot be read.\<close>
  "round_fails rd \<longleftrightarrow>
     (case checkFrameStatus rd of
        Inl e \<Rightarrow> True
      | Inr status_data \<Rightarrow> status_data = JUndefined \<or> status_data = JNull)"

subsection \<open>The pipeline run\<close>

text \<open>
  \<^verbatim>\<open>processCanvas\<close>. Everything the run receives from outside is a field of one record:
  the configured generator, the drawing, the two property sets and the factory of
  \<^verbatim>\<open>WorldObject\<close> (not among the sources), the three HTTP exchanges, the hash function
  \<^verbatim>\<open>md5\<close>, the outcome of each asynchronous load, the polling rounds, and
  \<^verbatim>\<open>createAndPlayAnimation\<close>. A callback that the code registers for a load is run at the
  point of registration when the load succeeds. Logging and stroke clean-up do not touch
  the state modelled here.
\<close>

record canvas_env =
  imageGenerator :: string
  extractCanvas :: string
  getZeroWorldObjProp :: props
  getDefaultWorldObjProp :: props
  userobject :: "string \<Rightarrow> props \<Rightarrow> gameobj"
  ollama_fetch :: "error + http_response"
  analysis_fetch :: "error + http_response"
  generation_fetch :: "error + http_response"
  md5 :: "string \<Rightarrow> string"
  base64_loads :: bool
  static_loads :: bool
  poll_rounds :: "nat \<Rightarrow> poll_round"
  placeholder_loads :: bool
  createAndPlayAnimation :: "string \<Rightarrow> string list \<Rightarrow> nat option \<Rightarrow> scene \<Rightarrow> scene"

fun join_comma :: "string list \<Rightarrow> string" where
  "join_comma [] = []"
| "join_comma [x] = x"
| "join_comma (x # y # zs) = x @ '','' @ join_comma (y # zs)"

fun js_to_string :: "jsval \<Rightarrow> string" where
  \<comment> \<open>The string a template literal makes of a value.\<close>
  "js_to_string JUndefined = ''undefined''"
| "js_to_string JNull = ''null''"
| "js_to_string (JBool b) = (if b then ''true'' else ''false'')"
| "js_to_string (JNum n) =
     (if n < 0 then ''-'' @ string_of_nat (nat (- n)) else string_of_nat (nat n))"
| "js_to_string (JStr s) = s"
| "js_to_string (JArr xs) =
     join_comma (map (\<lambda>x. if x = JUndefined \<or> x = JNull then [] else js_to_string x) xs)"
| "js_to_string (JObj kvs) = ''[object Object]''"

definition classify :: "canvas_env \<Rightarrow> error + jsval" where
  \<comment> \<open>The two classification calls and the check \<^verbatim>\<open>if (!geminiResponse) throw ...\<close>\<close>
  "classify env =
     (let analysisResponse = analyzeDrawingWithOllama (ollama_fetch env) in
      case (if \<not> truthy analysisResponse
            then sendImageDataToServerForAnalysis (analysis_fetch env)
            else Inr analysisResponse) of
        Inl e \<Rightarrow> Inl e
      | Inr geminiResponse \<Rightarrow>
          if \<not> truthy geminiResponse then Inl (Error ''No response from server'')
          else Inr geminiResponse)"

definition reset_drawing_state :: "scene \<Rightarrow> scene" where
  "reset_drawing_state s = s\<lparr>drawingInProgress := False, mouseDown := False\<rparr>"

definition remove_drawing :: "nat \<Rightarrow> nat \<Rightarrow> scene \<Rightarrow> scene" where
  \<comment> \<open>The branch taken on \<^verbatim>\<open>shouldRemove\<close>, at either stage.\<close>
  "remove_drawing phaserObj loadingParticles s =
     reset_drawing_state
       (destroy_object phaserObj
          (destroy_particles loadingParticles (stop_particles loadingParticles s)))"

definition cleanup_after_error :: "nat \<Rightarrow> nat \<Rightarrow> scene \<Rightarrow> scene" where
  \<comment> \<open>The \<^verbatim>\<open>catch\<close> block of \<^verbatim>\<open>processCanvas\<close>.\<close>
  "cleanup_after_error phaserObj loadingParticles s =
     reset_drawing_state
       (destroy_object phaserObj
          (update_obj phaserObj (\<lambda>obj. stop_effects (stop_blink obj))
             (destroy_particles loadingParticles (stop_particles loadingParticles s))))"

definition show_static_image ::
  "canvas_env \<Rightarrow> nat \<Rightarrow> jsval \<Rightarrow> props \<Rightarrow> scene \<Rightarrow> error option \<times> scene" where
  \<comment> \<open>The branch for the generators other than \<^verbatim>\<open>veo\<close>. \<^verbatim>\<open>md5\<close> rejects a value that is
      not a string.\<close>
  "show_static_image env phaserObj generatedImageData finalProperties s =
     (case generatedImageData of
        JStr b64 \<Rightarrow>
          (let imageKey = md5 env b64 in
           if imageKey \<in> textures s then
             (None, update_obj phaserObj (updateObject (Some imageKey) (Some finalProperties)) s)
           else
             (let s1 = update_obj phaserObj (updateObject None (Some finalProperties)) s in
              if base64_loads env then
                (None, update_obj phaserObj (updateObject (Some imageKey) (Some finalProperties))
                         (s1\<lparr>textures := insert imageKey (textures s1)\<rparr>))
              else (None, s1)))
      | _ \<Rightarrow> (Some (Error ''input is invalid type''), s))"

definition show_veo_animation ::
  "canvas_env \<Rightarrow> nat \<Rightarrow> jsval \<Rightarrow> props \<Rightarrow> scene \<Rightarrow> error option \<times> scene" where
  \<comment> \<open>The branch for \<^verbatim>\<open>veo\<close>: the static image, the blinking, the particles, the polling.\<close>
  "show_veo_animation env phaserObj generatedImageData additionalProperties s =
     (let hash = js_to_string generatedImageData;
          s1 = (if static_loads env then s\<lparr>textures := insert hash (textures s)\<rparr> else s);
          s2 = update_obj phaserObj (updateObject (Some hash) (Some additionalProperties)) s1;
          s3 = update_obj phaserObj (\<lambda>obj. obj\<lparr>blinkTween := Some \<lparr>playing = True\<rparr>\<rparr>) s2;
          added = add_particles ''veo_sparkle'' s3;
          veoParticles = fst added;
          s4 = startFollow veoParticles phaserObj (snd added);
          polled = pollForFramesAndShowAnimation (createAndPlayAnimation env) (poll_rounds env)
                     (placeholder_loads env) hash (Some phaserObj) s4;
          s5 = destroy_particles veoParticles (stop_particles veoParticles (snd polled))
      in (None, update_obj phaserObj stop_blink s5))"

definition apply_generated ::
  "canvas_env \<Rightarrow> nat \<Rightarrow> nat \<Rightarrow> props \<Rightarrow> props \<Rightarrow> jsval \<Rightarrow> scene \<Rightarrow> error option \<times> scene" where
  \<comment> \<open>From the check \<^verbatim>\<open>generatedImageData !== null && generatedImageData.shouldRemove\<close>
      to the end of the \<^verbatim>\<open>try\<close> block.\<close>
  "apply_generated env phaserObj loadingParticles additionalProperties finalProperties
       generatedImageData s =
     (case (if generatedImageData = JNull then Inr JNull
            else member generatedImageData ''shouldRemove'') of
        Inl e \<Rightarrow> (Some e, s)
      | Inr shouldRemove \<Rightarrow>
          if generatedImageData \<noteq> JNull \<and> truthy shouldRemove
          then (None, remove_drawing phaserObj loadingParticles s)
          else
            (let s1 = destroy_particles loadingParticles (stop_particles loadingParticles s)
             in if imageGenerator env = ''veo''
                then show_veo_animation env phaserObj generatedImageData additionalProperties s1
                else show_static_image env phaserObj generatedImageData finalProperties s1))"

definition resolve_and_generate ::
  "canvas_env \<Rightarrow> nat \<Rightarrow> nat \<Rightarrow> jsval \<Rightarrow> scene \<Rightarrow> error option \<times> scene" where
  \<comment> \<open>From \<^verbatim>\<open>phaserObj.setName(...)\<close> to the generation call, for a response that is
      truthy and does not ask for removal.\<close>
  "resolve_and_generate env phaserObj loadingParticles geminiResponse s =
     (case str_toLowerCase (field geminiResponse ''type'') of
        Inl e \<Rightarrow> (Some e, s)
      | Inr type_name \<Rightarrow>
          (let s1 = update_obj phaserObj (\<lambda>obj. obj\<lparr>name := toLowerCase type_name\<rparr>) s in
           case extractPropertiesFromGeminiData (getZeroWorldObjProp env)
                  (getDefaultWorldObjProp env) geminiResponse of
             Inl e \<Rightarrow> (Some e, s1)
           | Inr additionalProperties \<Rightarrow>
               (case sendToImageGenerationBackend (imageGenerator env) (generation_fetch env) of
                  Inl e \<Rightarrow> (Some e, s1)
                | Inr generatedImageData \<Rightarrow>
                    apply_generated env phaserObj loadingParticles additionalProperties
                      (mergeProperties (getDefaultWorldObjProp env) additionalProperties)
                      generatedImageData s1)))"

definition run_pipeline :: "canvas_env \<Rightarrow> nat \<Rightarrow> nat \<Rightarrow> scene \<Rightarrow> error option \<times> scene" where
  \<comment> \<open>The \<^verbatim>\<open>try\<close> block of \<^verbatim>\<open>processCanvas\<close>: the error thrown, if any, and the scene at
      that point.\<close>
  "run_pipeline env phaserObj loadingParticles s =
     (case classify env of
        Inl e \<Rightarrow> (Some e, s)
      | Inr geminiResponse \<Rightarrow>
          if truthy (field geminiResponse ''shouldRemove'')
          then (None, remove_drawing phaserObj loadingParticles s)
          else resolve_and_generate env phaserObj loadingParticles geminiResponse s)"

definition processCanvas :: "canvas_env \<Rightarrow> scene \<Rightarrow> scene" where
  "processCanvas env s =
     (let generatorType = imageGenerator env;
          base64ImageData = extractCanvas env;
          initialProperties = (getDefaultWorldObjProp env)
                                (''solid'' \<mapsto> JBool False, ''generating'' \<mapsto> JBool True);
          created = add_userobject (userobject env base64ImageData initialProperties) s;
          phaserObj = fst created;
          made = createLoadingParticles generatorType (snd created);
          loadingParticles = fst made;
          s1 = startFollow loadingParticles phaserObj (snd made)
      in case run_pipeline env phaserObj loadingParticles s1 of
           (None, s2) \<Rightarrow> s2
         | (Some e, s2) \<Rightarrow> cleanup_after_error phaserObj loadingParticles s2)"

definition well_formed :: "scene \<Rightarrow> bool" where
  \<comment> \<open>References are handed out in increasing order: none in use is ahead of the counter.\<close>
  "well_formed s \<longleftrightarrow> list_all (\<lambda>r. r < next_ref s) (children s)"

subsection \<open>Concrete instances\<close>

definition placeholder_object :: "string \<Rightarrow> props \<Rightarrow> gameobj" where
  \<comment> \<open>A stand-in for the object that the factory builds, used for concrete instances only.\<close>
  "placeholder_object tex p =
     \<lparr>name = [], cls = WorldObject, obj_prop = Some p, texture = Some tex, animation = None,
      alpha = 1, life = 100, destroyed = False, blinkTween = None, fire = None, flare = None,
      explosion = None, drips = None, steam = None, tween = None\<rparr>"

definition sample_scene :: scene where
  \<comment> \<open>A scene with one pre-placed object, while a drawing is in progress.\<close>
  "sample_scene =
     \<lparr>children = [0],
      objs = (\<lambda>r. None)(0 \<mapsto> placeholder_object ''crate'' (sample_zero(''wooden'' \<mapsto> JBool True))),
      particles = (\<lambda>r. None), next_ref = 1, textures = {''crate''},
      drawingInProgress = True, mouseDown = True,
      water = \<lparr>sensor = 100, floating = {}, splashes = []\<rparr>\<rparr>"

definition unavailable :: http_response where
  "unavailable = \<lparr>ok = False, status = 503, body_null = False, body_text = ''{}'',
                  body_json = Some (JObj [])\<rparr>"

definition not_found :: http_response where
  "not_found = \<lparr>ok = False, status = 404, body_null = False, body_text = [],
                body_json = None\<rparr>"

definition json_reply :: "jsval \<Rightarrow> http_response" where
  \<comment> \<open>A 200 response whose body parses to the given value; its text is not read where this
      is used.\<close>
  "json_reply v = \<lparr>ok = True, status = 200, body_null = False, body_text = ''{}'',
                   body_json = Some v\<rparr>"

definition not_ready_round :: poll_round where
  "not_ready_round =
     \<lparr>error_check = Inr not_found,
      frames_check = Inr (json_reply (JObj [(''ready'', JBool False), (''progress'', JNum 1),
                                            (''total'', JNum 4)])),
      frame_loads = (\<lambda>i. False)\<rparr>"

definition sample_env :: canvas_env where
  \<comment> \<open>A run in which the drawing is classified as a cat by the first backend and an image
      arrives; the theorems below vary single fields of it.\<close>
  "sample_env =
     \<lparr>imageGenerator = ''imagen'', extractCanvas = ''iVBORw0KGgo'',
      getZeroWorldObjProp = sample_zero, getDefaultWorldObjProp = sample_default,
      userobject = placeholder_object,
      ollama_fetch = Inr (json_reply (JObj [(''success'', JBool True),
                                             (''objectType'', JStr ''cat''),
                                             (''confidence'', JNum 1),
                                             (''description'', JStr ''a cat''),
                                             (''properties'', JObj [(''falls'', JBool True)])])),
      analysis_fetch = Inr unavailable,
      generation_fetch = Inr \<lparr>ok = True, status = 200, body_null = False,
                               body_text = ''iVBORw0KGgoAAAANSUhEUg'', body_json = None\<rparr>,
      md5 = (\<lambda>text. ''md5:'' @ text),
      base64_loads = True, static_loads = True,
      poll_rounds = (\<lambda>n. not_ready_round), placeholder_loads = True,
      createAndPlayAnimation = (\<lambda>hash frameKeys phaserObj s. s)\<rparr>"

definition view_conduct ::
  "(bool \<times> bool) option \<times> string option \<Rightarrow> (bool \<times> bool) option \<times> string option" where
  \<comment> \<open>\<^const>\<open>conduct\<close>, seen through \<^const>\<open>conduction_view\<close>.\<close>
  "view_conduct v =
     (case fst v of
        Some (True, lightning) \<Rightarrow> (Some (False, lightning), Some ''key'')
      | _ \<Rightarrow> v)"

definition view_lightning :: "(bool \<times> bool) option \<times> string option \<Rightarrow> bool" where
  "view_lightning v = (case fst v of Some (rusted, lightning) \<Rightarrow> lightning | None \<Rightarrow> False)"

definition view_step ::
  "nat \<Rightarrow> nat \<Rightarrow> (nat \<Rightarrow> ((bool \<times> bool) option \<times> string option) option)
     \<Rightarrow> (nat \<Rightarrow> ((bool \<times> bool) option \<times> string option) option)" where
  \<comment> \<open>\<^const>\<open>conduct_step\<close>, seen through \<^const>\<open>scene_view\<close>.\<close>
  "view_step a b V =
     (case (V a, V b) of
        (Some va, Some vb) \<Rightarrow> if view_lightning va then V(b \<mapsto> view_conduct vb) else V
      | _ \<Rightarrow> V)"

definition sample_methods :: methods where
  \<comment> \<open>Stand-ins for the methods of \<^verbatim>\<open>WorldObject\<close>, used for concrete instances only.\<close>
  "sample_methods =
     \<lparr>canSetFire = (\<lambda>obj. has_trait obj ''burns'' \<or> has_trait obj ''lightning''),
      addFire = (\<lambda>force obj. obj\<lparr>fire := Some \<lparr>sparkle = ''fire'', emitting = True,
                                                following = None, removed = False\<rparr>\<rparr>),
      addWet = (\<lambda>obj. obj\<lparr>fire := None\<rparr>),
      clearEffects = (\<lambda>obj. obj\<lparr>fire := None, steam := None\<rparr>),
      createMagneticForce = (\<lambda>obj. obj),
      updateMagneticField = (\<lambda>obj. obj)\<rparr>"


definition storm_scene :: scene where
  \<comment> \<open>A lightning bolt (object 1), a rusted key of the level (object 2), and a rusted
      object that a user drew (object 3).\<close>
  "storm_scene =
     \<lparr>children = [1, 2, 3],
      objs = (\<lambda>r. None)
        (1 \<mapsto> placeholder_object ''lightning'' (sample_zero(''lightning'' \<mapsto> JBool True)),
         2 \<mapsto> (placeholder_object ''rustedkey'' (sample_zero(''rusted'' \<mapsto> JBool True)))
               \<lparr>cls := RustedKey\<rparr>,
         3 \<mapsto> placeholder_object ''md5:anchor''
               (sample_zero(''rusted'' \<mapsto> JBool True, ''user_generated_obj'' \<mapsto> JBool True))),
      particles = (\<lambda>r. None), next_ref = 4, textures = {''lightning'', ''rustedkey'', ''key''},
      drawingInProgress = False, mouseDown = False,
      water = \<lparr>sensor = 100, floating = {}, splashes = []\<rparr>\<rparr>"




definition bolt_body :: body where
  "bolt_body = \<lparr>body_id = 20, gameObject = Some 1\<rparr>"

definition key_body :: body where
  "key_body = \<lparr>body_id = 21, gameObject = Some 2\<rparr>"

definition ready_reply :: http_response where
  "ready_reply = json_reply (JObj [(''ready'', JBool True), (''progress'', JNum 4),
                                   (''total'', JNum 4)])"

definition error_round :: poll_round where
  \<comment> \<open>The error file of the hash exists.\<close>
  "error_round =
     \<lparr>error_check = Inr (json_reply (JObj [(''error'', JStr ''quota exceeded'')])),
      frames_check = Inr ready_reply, frame_loads = (\<lambda>i. True)\<rparr>"

definition partial_round :: poll_round where
  \<comment> \<open>The status is ready, yet only the first two frames load.\<close>
  "partial_round =
     \<lparr>error_check = Inr not_found, frames_check = Inr ready_reply,
      frame_loads = (\<lambda>i. i < 2)\<rparr>"

definition ready_round :: poll_round where
  "ready_round =
     \<lparr>error_check = Inr not_found, frames_check = Inr ready_reply,
      frame_loads = (\<lambda>i. True)\<rparr>"

definition mixed_rounds :: "nat \<Rightarrow> poll_round" where
  "mixed_rounds n = (if n = 0 then partial_round else if n = 1 then error_round else ready_round)"

definition veo_scene :: scene where
  \<comment> \<open>A blinking placeholder (object 1) whose static image has not arrived, with one frame
      of an earlier attempt among the textures.\<close>
  "veo_scene =
     \<lparr>children = [1],
      objs = (\<lambda>r. None)
        (1 \<mapsto> (placeholder_object ''drawing'' sample_default)
               \<lparr>blinkTween := Some \<lparr>playing = True\<rparr>, alpha := 0.3\<rparr>),
      particles = (\<lambda>r. None), next_ref = 2, textures = {''genframe_abc_3'', ''crate''},
      drawingInProgress = False, mouseDown = False,
      water = \<lparr>sensor = 100, floating = {}, splashes = []\<rparr>\<rparr>"

definition anchor_body :: body where
  "anchor_body = \<lparr>body_id = 22, gameObject = Some 3\<rparr>"

definition sample_between :: "gameobj \<Rightarrow> int" where
  \<comment> \<open>A draw of \<^verbatim>\<open>Phaser.Math.Between(100, 300)\<close>.\<close>
  "sample_between target = 200"

definition electrify_rusted :: jsval where
  \<comment> \<open>The command "electrify everything that is rusted".\<close>
  "electrify_rusted = JObj [(''verb'', JStr ''Electrify''), (''target'', JStr ''rusted'')]"

definition initial_placeholder :: "canvas_env \<Rightarrow> gameobj" where
  \<comment> \<open>The object that \<^verbatim>\<open>processCanvas\<close> asks the factory for: the drawing with the default
      properties, not solid, generating.\<close>
  "initial_placeholder env =
     userobject env (extractCanvas env)
       ((getDefaultWorldObjProp env)(''solid'' \<mapsto> JBool False, ''generating'' \<mapsto> JBool True))"

definition try_entry :: "canvas_env \<Rightarrow> scene \<Rightarrow> scene" where
  \<comment> \<open>The scene when \<^verbatim>\<open>processCanvas\<close> enters its \<^verbatim>\<open>try\<close> block: the placeholder is on the
      display list and the loading particles follow it.\<close>
  "try_entry env s =
     startFollow (Suc (next_ref s)) (next_ref s)
       (snd (createLoadingParticles (imageGenerator env)
          (snd (add_userobject (initial_placeholder env) s))))"

definition untyped_reply :: jsval where
  \<comment> \<open>A classification in a schema that the client does not know: no \<^verbatim>\<open>type\<close>, no
      \<^verbatim>\<open>properties\<close>, no \<^verbatim>\<open>attributes\<close>.\<close>
  "untyped_reply = JObj [(''label'', JStr ''cat''), (''traits'', JArr [JStr ''burns''])]"

definition untyped_env :: canvas_env where
  "untyped_env = sample_env\<lparr>ollama_fetch := Inr unavailable,
                            analysis_fetch := Inr (json_reply untyped_reply)\<rparr>"

definition indexed_reply :: jsval where
  \<comment> \<open>A classification whose \<^verbatim>\<open>properties\<close> is an array, not a property map.\<close>
  "indexed_reply = JObj [(''type'', JStr ''torch''), (''properties'', JArr [JStr ''burns''])]"




definition blank_env :: canvas_env where
  \<comment> \<open>The run in which the first backend is unavailable and the second answers with an
      empty body: the classification is \<^verbatim>\<open>undefined\<close>.\<close>
  "blank_env = sample_env\<lparr>ollama_fetch := Inr unavailable,
                          analysis_fetch := Inr \<lparr>ok = True, status = 200, body_null = True,
                                                  body_text = [], body_json = None\<rparr>\<rparr>"

definition has_type_name :: "jsval \<Rightarrow> bool" where
  \<comment> \<open>The response carries a string \<^verbatim>\<open>type\<close>, on which \<^verbatim>\<open>toLowerCase\<close> can be called.\<close>
  "has_type_name geminiResponse \<longleftrightarrow>
     (case field geminiResponse ''type'' of JStr type_name \<Rightarrow> True | _ \<Rightarrow> False)"



section \<open>Properties\<close>

subsection \<open>Trait parsing\<close>

lemma keys_assign:
  "k \<in> set (map fst p) \<Longrightarrow> map fst (assign k v p) = map fst p"
  by (induction p) (auto simp: assign_def)

lemma lookup_assign:
  "map_of (assign k v p) = (map_of p)(k \<mapsto> v)"
  by (simp add: assign_def update_conv')

lemma keys_apply_word:
  "map fst p = trait_keys \<Longrightarrow> map fst (apply_word w p) = trait_keys"
  by (simp add: apply_word_def keys_assign trait_keys_def)

lemma keys_fold_apply_word:
  "map fst p = trait_keys \<Longrightarrow> map fst (fold apply_word ws p) = trait_keys"
  by (induction ws arbitrary: p) (simp_all add: keys_apply_word)

lemma keys_type_overrides:
  "map fst p = trait_keys \<Longrightarrow> map fst (type_overrides t p) = trait_keys"
  by (simp add: type_overrides_def keys_assign trait_keys_def)

lemma keys_initial_traits: "map fst initial_traits = trait_keys"
  by (simp add: initial_traits_def trait_keys_def)

lemma type_overrides_values:
  "map_of (type_overrides objectType p) k =
     (if (objectType = ''fire'' \<or> objectType = ''candle'' \<or> objectType = ''flame'') \<and>
         k \<in> {''burns'', ''solid'', ''falls''} then Some True
      else if objectType = ''ice'' \<and> k = ''ice'' then Some True
      else if objectType = ''water'' \<and> k \<in> {''drips'', ''douses'', ''falls''} then Some True
      else if objectType = ''wind'' \<and> k = ''blows'' then Some True
      else if objectType = ''wind'' \<and> k \<in> {''solid'', ''falls''} then Some False
      else map_of p k)"
  by (simp add: type_overrides_def lookup_assign)

lemma parse_as_phases:
  "parsePropertiesFromString objectType propertiesStr confidence =
     type_overrides objectType (word_traits propertiesStr)"
  by (simp add: parsePropertiesFromString_def word_traits_def)

lemma keys_word_traits: "map fst (word_traits propertiesStr) = trait_keys"
  unfolding word_traits_def by (rule keys_fold_apply_word) (rule keys_initial_traits)

text \<open>
  Claim C10. For every object type, property string and confidence,
  \<^verbatim>\<open>parsePropertiesFromString\<close> returns an object whose keys are exactly the fourteen
  traits (in the order of the literal, none added, none lost). The type-specific
  overrides come last. Whatever words the property string lists: for \<^verbatim>\<open>wind\<close> the result
  has \<^verbatim>\<open>blows = true\<close>, \<^verbatim>\<open>solid = false\<close> and \<^verbatim>\<open>falls = false\<close>; for \<^verbatim>\<open>fire\<close>, \<^verbatim>\<open>candle\<close> and
  \<^verbatim>\<open>flame\<close> it has \<^verbatim>\<open>burns\<close>, \<^verbatim>\<open>solid\<close> and \<^verbatim>\<open>falls\<close> true; for \<^verbatim>\<open>ice\<close> it has \<^verbatim>\<open>ice\<close> true; for
  \<^verbatim>\<open>water\<close> it has \<^verbatim>\<open>drips\<close>, \<^verbatim>\<open>douses\<close> and \<^verbatim>\<open>falls\<close> true. Every trait that the type does not
  override has the value that the words gave it, and for any other type the result is
  what the words gave.
\<close>

theorem parsePropertiesFromString_closed_keys:
  "map fst (parsePropertiesFromString objectType propertiesStr confidence) = trait_keys \<and>
   length trait_keys = 14 \<and> distinct trait_keys \<and>
   (objectType = ''wind'' \<longrightarrow>
      map_of (parsePropertiesFromString objectType propertiesStr confidence) ''blows''
        = Some True \<and>
      map_of (parsePropertiesFromString objectType propertiesStr confidence) ''solid''
        = Some False \<and>
      map_of (parsePropertiesFromString objectType propertiesStr confidence) ''falls''
        = Some False) \<and>
   (objectType = ''fire'' \<or> objectType = ''candle'' \<or> objectType = ''flame'' \<longrightarrow>
      map_of (parsePropertiesFromString objectType propertiesStr confidence) ''burns''
        = Some True \<and>
      map_of (parsePropertiesFromString objectType propertiesStr confidence) ''solid''
        = Some True \<and>
      map_of (parsePropertiesFromString objectType propertiesStr confidence) ''falls''
        = Some True) \<and>
   (objectType = ''ice'' \<longrightarrow>
      map_of (parsePropertiesFromString objectType propertiesStr confidence) ''ice''
        = Some True) \<and>
   (objectType = ''water'' \<longrightarrow>
      map_of (parsePropertiesFromString objectType propertiesStr confidence) ''drips''
        = Some True \<and>
      map_of (parsePropertiesFromString objectType propertiesStr confidence) ''douses''
        = Some True \<and>
      map_of (parsePropertiesFromString objectType propertiesStr confidence) ''falls''
        = Some True) \<and>
   (objectType = ''wind'' \<and> k \<notin> {''blows'', ''solid'', ''falls''} \<longrightarrow>
      map_of (parsePropertiesFromString objectType propertiesStr confidence) k
        = map_of (word_traits propertiesStr) k) \<and>
   ((objectType = ''fire'' \<or> objectType = ''candle'' \<or> objectType = ''flame'') \<and>
    k \<notin> {''burns'', ''solid'', ''falls''} \<longrightarrow>
      map_of (parsePropertiesFromString objectType propertiesStr confidence) k
        = map_of (word_traits propertiesStr) k) \<and>
   (objectType = ''ice'' \<and> k \<noteq> ''ice'' \<longrightarrow>
      map_of (parsePropertiesFromString objectType propertiesStr confidence) k
        = map_of (word_traits propertiesStr) k) \<and>
   (objectType = ''water'' \<and> k \<notin> {''drips'', ''douses'', ''falls''} \<longrightarrow>
      map_of (parsePropertiesFromString objectType propertiesStr confidence) k
        = map_of (word_traits propertiesStr) k) \<and>
   (objectType \<notin> {''fire'', ''candle'', ''flame'', ''ice'', ''water'', ''wind''} \<longrightarrow>
      parsePropertiesFromString objectType propertiesStr confidence
        = word_traits propertiesStr)"
proof -
  have keys: "map fst (parsePropertiesFromString objectType propertiesStr confidence)
      = trait_keys"
    unfolding parse_as_phases by (rule keys_type_overrides) (rule keys_word_traits)
  have shape: "length trait_keys = 14 \<and> distinct trait_keys"
    by (simp add: trait_keys_def)
  have other: "objectType \<notin> {''fire'', ''candle'', ''flame'', ''ice'', ''water'', ''wind''} \<longrightarrow>
      parsePropertiesFromString objectType propertiesStr confidence
        = word_traits propertiesStr"
    by (simp add: parse_as_phases type_overrides_def)
  show ?thesis
    using keys shape other
    by (simp add: parse_as_phases type_overrides_values)
qed

theorem parsePropertiesFromString_closed_keys_witness:
  "parsePropertiesFromString ''wind'' ''Heavy, floats ,FLIES,metal'' 0.5 =
     [(''floats'', True), (''hovers'', False), (''falls'', False), (''drips'', False),
      (''douses'', False), (''solid'', False), (''heavy'', True), (''burns'', False),
      (''explodes'', False), (''flies'', True), (''wooden'', False), (''metal'', True),
      (''ice'', False), (''blows'', True)] \<and>
   map fst (parsePropertiesFromString ''wind'' ''Heavy, floats ,FLIES,metal'' 0.5) = trait_keys \<and>
   map_of (parsePropertiesFromString ''wind'' ''Heavy, floats ,FLIES,metal'' 0.5) ''solid''
     = Some False \<and>
   ''heavy'' \<notin> {''blows'', ''solid'', ''falls''} \<and>
   map_of (parsePropertiesFromString ''wind'' ''Heavy, floats ,FLIES,metal'' 0.5) ''heavy''
     = Some True \<and>
   map_of (word_traits ''floats, Water'') ''falls'' = Some False \<and>
   map_of (parsePropertiesFromString ''water'' ''floats, Water'' 0.5) ''falls'' = Some True \<and>
   ''floats'' \<notin> {''drips'', ''douses'', ''falls''} \<and>
   map_of (parsePropertiesFromString ''water'' ''floats, Water'' 0.5) ''floats'' = Some True \<and>
   map_of (word_traits ''air'') ''solid'' = Some False \<and>
   map_of (parsePropertiesFromString ''fire'' ''air'' 0.5) ''solid'' = Some True \<and>
   map_of (parsePropertiesFromString ''candle'' ''air'' 0.5) ''burns'' = Some True \<and>
   map_of (parsePropertiesFromString ''flame'' ''air'' 0.5) ''falls'' = Some True \<and>
   ''blows'' \<notin> {''burns'', ''solid'', ''falls''} \<and>
   map_of (parsePropertiesFromString ''fire'' ''air'' 0.5) ''blows'' = Some True \<and>
   map_of (parsePropertiesFromString ''ice'' ''air'' 0.5) ''ice'' = Some True \<and>
   ''solid'' \<noteq> ''ice'' \<and>
   map_of (parsePropertiesFromString ''ice'' ''air'' 0.5) ''solid'' = Some False \<and>
   ''rock'' \<notin> {''fire'', ''candle'', ''flame'', ''ice'', ''water'', ''wind''} \<and>
   parsePropertiesFromString ''rock'' ''air'' 0.5 = word_traits ''air''"
proof -
  have words: "word_traits ''Heavy, floats ,FLIES,metal'' =
     [(''floats'', True), (''hovers'', False), (''falls'', False), (''drips'', False),
      (''douses'', False), (''solid'', True), (''heavy'', True), (''burns'', False),
      (''explodes'', False), (''flies'', True), (''wooden'', False), (''metal'', True),
      (''ice'', False), (''blows'', False)]"
    by code_simp
  have whole: "parsePropertiesFromString ''wind'' ''Heavy, floats ,FLIES,metal'' 0.5 =
     [(''floats'', True), (''hovers'', False), (''falls'', False), (''drips'', False),
      (''douses'', False), (''solid'', False), (''heavy'', True), (''burns'', False),
      (''explodes'', False), (''flies'', True), (''wooden'', False), (''metal'', True),
      (''ice'', False), (''blows'', True)]"
    by (simp add: parse_as_phases words type_overrides_def assign_def)
  have floats: "map_of (word_traits ''floats, Water'') ''falls'' = Some False \<and>
      map_of (word_traits ''floats, Water'') ''floats'' = Some True"
    by code_simp
  have air: "map_of (word_traits ''air'') ''solid'' = Some False \<and>
      map_of (word_traits ''air'') ''blows'' = Some True"
    by code_simp
  note wind = parsePropertiesFromString_closed_keys
      [of "''wind''" "''Heavy, floats ,FLIES,metal''" "0.5" "''heavy''"]
  note water = parsePropertiesFromString_closed_keys
      [of "''water''" "''floats, Water''" "0.5" "''floats''"]
  note fire = parsePropertiesFromString_closed_keys [of "''fire''" "''air''" "0.5" "''blows''"]
  note candle = parsePropertiesFromString_closed_keys [of "''candle''" "''air''" "0.5" "''blows''"]
  note flame = parsePropertiesFromString_closed_keys [of "''flame''" "''air''" "0.5" "''blows''"]
  note ice = parsePropertiesFromString_closed_keys [of "''ice''" "''air''" "0.5" "''solid''"]
  note rock = parsePropertiesFromString_closed_keys [of "''rock''" "''air''" "0.5" "''solid''"]
  from wind have w: "map fst (parsePropertiesFromString ''wind'' ''Heavy, floats ,FLIES,metal'' 0.5)
        = trait_keys \<and>
      map_of (parsePropertiesFromString ''wind'' ''Heavy, floats ,FLIES,metal'' 0.5) ''solid''
        = Some False \<and>
      map_of (parsePropertiesFromString ''wind'' ''Heavy, floats ,FLIES,metal'' 0.5) ''heavy''
        = map_of (word_traits ''Heavy, floats ,FLIES,metal'') ''heavy''"
    by simp
  from water have a: "map_of (parsePropertiesFromString ''water'' ''floats, Water'' 0.5) ''falls''
        = Some True \<and>
      map_of (parsePropertiesFromString ''water'' ''floats, Water'' 0.5) ''floats''
        = map_of (word_traits ''floats, Water'') ''floats''"
    by simp
  from fire have f: "map_of (parsePropertiesFromString ''fire'' ''air'' 0.5) ''solid'' = Some True \<and>
      map_of (parsePropertiesFromString ''fire'' ''air'' 0.5) ''blows''
        = map_of (word_traits ''air'') ''blows''"
    by simp
  from candle have c: "map_of (parsePropertiesFromString ''candle'' ''air'' 0.5) ''burns''
      = Some True"
    by simp
  from flame have l: "map_of (parsePropertiesFromString ''flame'' ''air'' 0.5) ''falls''
      = Some True"
    by simp
  from ice have i: "map_of (parsePropertiesFromString ''ice'' ''air'' 0.5) ''ice'' = Some True \<and>
      map_of (parsePropertiesFromString ''ice'' ''air'' 0.5) ''solid''
        = map_of (word_traits ''air'') ''solid''"
    by simp
  from rock have r: "parsePropertiesFromString ''rock'' ''air'' 0.5 = word_traits ''air''"
    by simp
  from whole words floats air w a f c l i r show ?thesis by simp
qed

subsection \<open>Frame status\<close>

lemma string_of_nat_digit: "n < 10 \<Longrightarrow> string_of_nat n = [decimal_digit n]"
  by (subst string_of_nat.simps) simp

lemma frames_loop_general:
  "frames_loop pjoin ex hash i (r, c) =
     (r + length (filter (\<lambda>j. ex (framePath pjoin hash j)) [i..<totalFrames]),
      c @ map (framePath pjoin hash) [i..<totalFrames])"
proof (induction pjoin ex hash i "(r, c)" arbitrary: r c rule: frames_loop.induct)
  case (1 pjoin ex hash i r c)
  show ?case
  proof (cases "i < totalFrames")
    case True
    then have upt: "[i..<totalFrames] = i # [i + 1..<totalFrames]"
      by (simp add: upt_conv_Cons)
    show ?thesis
      using True "1.hyps" [OF True refl]
      by (subst frames_loop.simps) (simp add: upt Let_def)
  next
    case False
    then show ?thesis by (subst frames_loop.simps) simp
  qed
qed

lemma upt_four: "[0..<totalFrames] = [0, 1, 2, 3]"
  by (simp add: totalFrames_def upt_conv_Cons)

lemma frames_loop_unrolled:
  "frames_loop pjoin ex hash 0 (0, []) =
     (length (filter (\<lambda>i. ex (framePath pjoin hash i)) [0, 1, 2, 3]),
      map (framePath pjoin hash) [0, 1, 2, 3])"
  by (simp add: frames_loop_general upt_four)

lemma below_four: "(i::nat) < 4 \<Longrightarrow> i = 0 \<or> i = 1 \<or> i = 2 \<or> i = 3"
  by arith

lemma all_below_four: "(\<forall>i<4. P i) \<longleftrightarrow> P 0 \<and> P 1 \<and> P 2 \<and> P (3::nat)"
  by (auto dest: below_four)

lemma count_four:
  "length (filter P [0, 1, 2, 3::nat]) = 4 \<longleftrightarrow> (\<forall>i<4. P i)"
  by (simp add: all_below_four)

text \<open>
  Claim C9. For a non-empty hash the route answers with \<^verbatim>\<open>ready\<close> true exactly when the
  four files \<^verbatim>\<open>output_{hash}_frame0.png\<close> to \<^verbatim>\<open>output_{hash}_frame3.png\<close> exist under
  \<^verbatim>\<open>generated\<close>, with \<^verbatim>\<open>progress\<close> the number of them that exist and \<^verbatim>\<open>total\<close> 4, after
  asking the file system about these four paths and no other. With a missing or an empty
  hash it answers 400 without asking the file system anything.
\<close>

theorem checkFrames_ready_iff_all_frames:
  "(hash \<noteq> [] \<longrightarrow>
      checkFrames pjoin ex (Some hash) =
        (Json200 (\<forall>i<4. ex (framePath pjoin hash i))
                 (length (filter (\<lambda>i. ex (framePath pjoin hash i)) [0, 1, 2, 3])) 4,
         map (framePath pjoin hash) [0, 1, 2, 3])) \<and>
   checkFrames pjoin ex None = (Status400 ''Hash parameter is required'', []) \<and>
   checkFrames pjoin ex (Some []) = (Status400 ''Hash parameter is required'', []) \<and>
   (\<forall>i<4. framePath pjoin hash i =
      pjoin [pjoin [''generated''], ''output_'' @ hash @ ''_frame'' @ [''0123'' ! i] @ ''.png''])"
proof -
  have names: "\<forall>i<4. framePath pjoin hash i =
      pjoin [pjoin [''generated''], ''output_'' @ hash @ ''_frame'' @ [''0123'' ! i] @ ''.png'']"
    unfolding all_below_four
    by (simp add: framePath_def frame_file_def string_of_nat_digit decimal_digit_def)
  have some: "hash \<noteq> [] \<longrightarrow>
      checkFrames pjoin ex (Some hash) =
        (Json200 (\<forall>i<4. ex (framePath pjoin hash i))
                 (length (filter (\<lambda>i. ex (framePath pjoin hash i)) [0, 1, 2, 3])) 4,
         map (framePath pjoin hash) [0, 1, 2, 3])"
    using count_four [of "\<lambda>i. ex (framePath pjoin hash i)"]
    by (simp add: checkFrames_def frames_loop_unrolled totalFrames_def del: filter.simps)
  have none: "checkFrames pjoin ex None = (Status400 ''Hash parameter is required'', [])"
    by (simp add: checkFrames_def)
  have empty: "checkFrames pjoin ex (Some []) = (Status400 ''Hash parameter is required'', [])"
    by (simp add: checkFrames_def)
  from some none empty names show ?thesis by blast
qed

theorem checkFrames_ready_iff_all_frames_witness:
  "''ab'' \<noteq> [] \<and>
   checkFrames sample_join sample_files (Some ''ab'')
    = (Json200 False 3 4,
       [''generated/output_ab_frame0.png'', ''generated/output_ab_frame1.png'',
        ''generated/output_ab_frame2.png'', ''generated/output_ab_frame3.png''])"
proof -
  note t = checkFrames_ready_iff_all_frames [of "''ab''" sample_join sample_files]
  have paths: "map (framePath sample_join ''ab'') [0, 1, 2, 3] =
      [''generated/output_ab_frame0.png'', ''generated/output_ab_frame1.png'',
       ''generated/output_ab_frame2.png'', ''generated/output_ab_frame3.png'']"
    by (simp add: framePath_def frame_file_def string_of_nat_digit decimal_digit_def
        sample_join_def)
  have missing: "\<not> (\<forall>i<4. sample_files (framePath sample_join ''ab'' i))"
  proof
    assume "\<forall>i<4. sample_files (framePath sample_join ''ab'' i)"
    then have "sample_files (framePath sample_join ''ab'' 2)" by simp
    then show False
      by (simp add: framePath_def frame_file_def string_of_nat_digit decimal_digit_def
          sample_join_def sample_files_def)
  qed
  have cnt: "length (filter (\<lambda>i. sample_files (framePath sample_join ''ab'' i)) [0, 1, 2, 3]) = 3"
    by (simp add: framePath_def frame_file_def string_of_nat_digit decimal_digit_def
        sample_join_def sample_files_def)
  from t paths missing cnt show ?thesis by simp
qed

subsection \<open>Property resolution\<close>

lemma extract_cases:
  "extractPropertiesFromGeminiData zeroProp defaultProp rawData =
     Inr (if has_property_map rawData then zeroProp ++ own_props (field rawData ''properties'')
          else if has_attribute_list rawData
          then mark_attributes zeroProp (elements (field rawData ''attributes''))
          else defaultProp)"
  by (cases rawData; cases "field rawData ''attributes''")
     (auto simp: extractPropertiesFromGeminiData_def member_def has_property_map_def
      has_attribute_list_def)

lemma dom_mark_attributes: "dom (mark_attributes config attrs) = dom config"
  by (auto simp: mark_attributes_def dom_def)

lemma shapes_exclusive: "has_attribute_list rawData \<Longrightarrow> \<not> has_property_map rawData"
  by (simp add: has_attribute_list_def)

lemma sample_zero_keys: "dom sample_zero = set sample_vocabulary"
  by (simp add: sample_zero_def dom_map_of_conv_image_fst image_image)

text \<open>
  Claim C1, as the code has it. For a response with an attribute list the property set
  that \<^verbatim>\<open>extractPropertiesFromGeminiData\<close> returns has exactly the keys of the zero set:
  attribute names outside the vocabulary are dropped. For a response with a property map
  it has the keys of the zero set together with every key of the response's
  \<^verbatim>\<open>properties\<close> object, so it stays inside the vocabulary exactly when the response does.
  For any other response it is the default set. The set merged into \<^verbatim>\<open>finalProperties\<close>
  has the keys of the default set, those of the extracted set, and
  \<^verbatim>\<open>user_generated_obj\<close>.
\<close>

theorem extract_keys_by_shape:
  "(has_attribute_list rawData \<longrightarrow>
      (\<exists>p. extractPropertiesFromGeminiData zeroProp defaultProp rawData = Inr p \<and>
           dom p = dom zeroProp)) \<and>
   (has_property_map rawData \<longrightarrow>
      (\<exists>p. extractPropertiesFromGeminiData zeroProp defaultProp rawData = Inr p \<and>
           dom p = dom zeroProp \<union> dom (own_props (field rawData ''properties'')))) \<and>
   (\<not> has_attribute_list rawData \<and> \<not> has_property_map rawData \<longrightarrow>
      extractPropertiesFromGeminiData zeroProp defaultProp rawData = Inr defaultProp) \<and>
   dom (mergeProperties defaultProp additionalProperties) =
     dom defaultProp \<union> dom additionalProperties \<union> {''user_generated_obj''}"
proof -
  have merged: "dom (mergeProperties defaultProp additionalProperties) =
      dom defaultProp \<union> dom additionalProperties \<union> {''user_generated_obj''}"
    by (auto simp: mergeProperties_def)
  have listed: "has_attribute_list rawData \<longrightarrow>
      (\<exists>p. extractPropertiesFromGeminiData zeroProp defaultProp rawData = Inr p \<and>
           dom p = dom zeroProp)"
    by (auto simp: extract_cases dom_mark_attributes dest: shapes_exclusive)
  have mapped: "has_property_map rawData \<longrightarrow>
      (\<exists>p. extractPropertiesFromGeminiData zeroProp defaultProp rawData = Inr p \<and>
           dom p = dom zeroProp \<union> dom (own_props (field rawData ''properties'')))"
    by (auto simp: extract_cases)
  have other: "\<not> has_attribute_list rawData \<and> \<not> has_property_map rawData \<longrightarrow>
      extractPropertiesFromGeminiData zeroProp defaultProp rawData = Inr defaultProp"
    by (simp add: extract_cases)
  from listed mapped other merged show ?thesis by blast
qed

theorem extract_keys_by_shape_witness:
  "has_attribute_list (JObj [(''type'', JStr ''torch''),
                            (''attributes'', JArr [JStr ''burns'', JStr ''sparkly''])]) \<and>
   has_property_map (JObj [(''type'', JStr ''torch''),
                          (''properties'', JObj [(''burns'', JBool True)])]) \<and>
   \<not> has_attribute_list (JObj [(''type'', JStr ''torch'')]) \<and>
   \<not> has_property_map (JObj [(''type'', JStr ''torch'')]) \<and>
   (\<exists>p. extractPropertiesFromGeminiData sample_zero sample_default
          (JObj [(''type'', JStr ''torch''),
                 (''attributes'', JArr [JStr ''burns'', JStr ''sparkly''])]) = Inr p \<and>
        dom p = set sample_vocabulary) \<and>
   (\<exists>p. extractPropertiesFromGeminiData sample_zero sample_default
          (JObj [(''type'', JStr ''torch''),
                 (''properties'', JObj [(''burns'', JBool True)])]) = Inr p \<and>
        dom p = set sample_vocabulary) \<and>
   extractPropertiesFromGeminiData sample_zero sample_default (JObj [(''type'', JStr ''torch'')])
     = Inr sample_default"
proof -
  let ?listed = "JObj [(''type'', JStr ''torch''),
                       (''attributes'', JArr [JStr ''burns'', JStr ''sparkly''])]"
  let ?mapped = "JObj [(''type'', JStr ''torch''),
                       (''properties'', JObj [(''burns'', JBool True)])]"
  let ?other = "JObj [(''type'', JStr ''torch'')]"
  have a: "has_attribute_list ?listed"
    by (simp add: has_attribute_list_def has_property_map_def)
  have b: "has_property_map ?mapped"
    by (simp add: has_property_map_def)
  have c: "\<not> has_attribute_list ?other \<and> \<not> has_property_map ?other"
    by (simp add: has_attribute_list_def has_property_map_def)
  have keys: "dom sample_zero \<union> dom (own_props (field ?mapped ''properties''))
      = set sample_vocabulary"
    by (auto simp: sample_zero_keys sample_vocabulary_def)
  from a b c keys
    extract_keys_by_shape [of ?listed sample_zero sample_default Map.empty]
    extract_keys_by_shape [of ?mapped sample_zero sample_default Map.empty]
    extract_keys_by_shape [of ?other sample_zero sample_default Map.empty]
  show ?thesis by (simp add: sample_zero_keys)
qed

theorem extract_keeps_unknown_key_counterexample:
  "extractPropertiesFromGeminiData sample_zero sample_default
     (JObj [(''type'', JStr ''cat''), (''properties'', JObj [(''sparkly'', JBool True)])])
     = Inr (sample_zero(''sparkly'' \<mapsto> JBool True)) \<and>
   mergeProperties sample_default (sample_zero(''sparkly'' \<mapsto> JBool True)) ''sparkly''
     = Some (JBool True) \<and>
   ''sparkly'' \<notin> dom sample_zero \<union> dom sample_default"
  by (simp add: extractPropertiesFromGeminiData_def member_def mergeProperties_def
      sample_zero_keys sample_default_def sample_vocabulary_def)

subsection \<open>Water and heavy bodies\<close>

lemma water_update_obj [simp]: "water (update_obj r f s) = water s"
  by (simp add: update_obj_def split: option.splits)

lemma objs_on_water [simp]: "objs (on_water f s) = objs s"
  by (simp add: on_water_def)

lemma water_on_water [simp]: "water (on_water f s) = f (water s)"
  by (simp add: on_water_def)

lemma water_wet [simp]: "water (wet_gameObject m b s) = water s"
  by (simp add: wet_gameObject_def split: option.splits)

lemma objs_wet_on_water [simp]:
  "objs (wet_gameObject m b (on_water f s)) = objs (wet_gameObject m b s)"
  by (simp add: wet_gameObject_def update_obj_def on_water_def split: option.splits)



lemma sensor_kept [simp]:
  "sensor (addFloating b w) = sensor w" "sensor (removeFloating b w) = sensor w"
  "sensor (createSplash b f w) = sensor w"
  by (simp_all add: addFloating_def removeFloating_def createSplash_def)







subsection \<open>Conduction\<close>

lemma update_obj_absent: "objs s r = None \<Longrightarrow> update_obj r f s = s"
  by (simp add: update_obj_def)

lemma scene_view_update_obj:
  "objs s r = Some obj \<Longrightarrow>
   scene_view (update_obj r f s) = (scene_view s)(r \<mapsto> conduction_view (f obj))"
  by (auto simp: scene_view_def update_obj_def)

lemma scene_view_same:
  "objs s r = Some obj \<Longrightarrow> conduction_view (f obj) = conduction_view obj \<Longrightarrow>
   scene_view (update_obj r f s) = scene_view s"
  by (auto simp: scene_view_def update_obj_def)

lemma has_trait_clear_rusted:
  "has_trait (setTexture key (clear_rusted obj)) k =
     (if k = ''rusted'' then False else has_trait obj k)"
  by (cases "obj_prop obj") (simp_all add: has_trait_def setTexture_def clear_rusted_def)

lemma conduction_view_conduct:
  "conduction_view (conduct obj) = view_conduct (conduction_view obj)"
proof (cases "obj_prop obj")
  case None
  then show ?thesis
    by (simp add: conduct_def conduction_view_def view_conduct_def has_trait_def)
next
  case (Some p)
  then show ?thesis
    by (simp add: conduct_def conduction_view_def view_conduct_def has_trait_clear_rusted)
       (simp add: setTexture_def clear_rusted_def)
qed

lemma view_lightning_eq: "view_lightning (conduction_view obj) = has_trait obj ''lightning''"
  by (cases "obj_prop obj") (simp_all add: view_lightning_def conduction_view_def has_trait_def)

lemma scene_view_ignite_step:
  assumes "\<forall>force obj. conduction_view (addFire m force obj) = conduction_view obj"
  shows "scene_view (ignite_step m a b s) = scene_view s"
  using assms
  by (auto simp: ignite_step_def scene_view_same split: option.splits)

lemma scene_view_conduct_step:
  "scene_view (conduct_step a b s) = view_step a b (scene_view s)"
proof (cases "objs s a")
  case None
  then show ?thesis
    by (simp add: conduct_step_def view_step_def scene_view_def)
next
  case a: (Some objA)
  show ?thesis
  proof (cases "objs s b")
    case None
    with a show ?thesis
      by (simp add: conduct_step_def view_step_def scene_view_def)
  next
    case b: (Some objB)
    have "scene_view s a = Some (conduction_view objA)"
      "scene_view s b = Some (conduction_view objB)"
      using a b by (simp_all add: scene_view_def)
    with a b show ?thesis
      by (simp add: conduct_step_def view_step_def view_lightning_eq
          scene_view_update_obj conduction_view_conduct)
  qed
qed

lemma view_conduct_idem: "view_conduct (view_conduct v) = view_conduct v"
  by (cases v) (auto simp: view_conduct_def split: option.splits bool.splits)

lemma view_lightning_conduct: "view_lightning (view_conduct v) = view_lightning v"
  by (cases v) (auto simp: view_conduct_def view_lightning_def split: option.splits bool.splits)

lemma view_step_both:
  "view_step b a (view_step a b V) =
     (case (V a, V b) of
        (Some va, Some vb) \<Rightarrow>
          if a = b then (if view_lightning va then V(a \<mapsto> view_conduct va) else V)
          else (\<lambda>r. if r = a \<and> view_lightning vb then Some (view_conduct va)
                    else if r = b \<and> view_lightning va then Some (view_conduct vb)
                    else V r)
      | _ \<Rightarrow> V)"
  by (auto simp: view_step_def view_conduct_idem view_lightning_conduct fun_eq_iff
      split: option.splits)

lemma view_step_commute:
  "view_step b a (view_step a b V) = view_step a b (view_step b a V)"
  unfolding view_step_both [of b a V] view_step_both [of a b V]
  by (auto simp: fun_eq_iff split: option.splits)

lemma view_step_idem:
  "view_step b a (view_step a b (view_step b a (view_step a b V))) =
   view_step b a (view_step a b V)"
  unfolding view_step_both [of b a "view_step b a (view_step a b V)"]
  unfolding view_step_both [of b a V]
  by (auto simp: fun_eq_iff view_conduct_idem view_lightning_conduct split: option.splits)

lemma scene_view_collisionactive_pair:
  assumes "\<forall>force obj. conduction_view (addFire m force obj) = conduction_view obj"
    and "gameObject bodyA = Some a" "gameObject bodyB = Some b"
  shows "scene_view (collisionactive_pair m (bodyA, bodyB) s) =
         view_step b a (view_step a b (scene_view s))"
  using assms
  by (simp add: collisionactive_pair_def scene_view_conduct_step scene_view_ignite_step)

lemma collisionactive_pair_no_object:
  "gameObject bodyA = None \<or> gameObject bodyB = None \<Longrightarrow>
   collisionactive_pair m (bodyA, bodyB) s = s"
  by (auto simp: collisionactive_pair_def split: option.splits)

text \<open>
  Claim C6, as the code has it. The conduction rule runs in the handler of the
  contact-continuing event; the contact-begin handler does not touch \<^verbatim>\<open>rusted\<close>. Provided
  that \<^verbatim>\<open>addFire\<close> leaves alone what the rule reads and writes (whether an object is
  rusted, whether it is a lightning source, and its texture): handling the pair in either
  order of its bodies gives the same result, handling it a second time changes nothing,
  and when a lightning source touches a rusted object the first event clears \<^verbatim>\<open>rusted\<close>
  and sets the texture \<^verbatim>\<open>key\<close>, whichever body the lightning source is.
\<close>

theorem conduction_on_continuing_contact:
  "(\<forall>force obj. conduction_view (addFire m force obj) = conduction_view obj) \<longrightarrow>
     scene_view (collisionactive_pair m (bodyA, bodyB) s) =
       scene_view (collisionactive_pair m (bodyB, bodyA) s) \<and>
     scene_view (collisionactive_pair m (bodyA, bodyB) (collisionactive_pair m (bodyA, bodyB) s)) =
       scene_view (collisionactive_pair m (bodyA, bodyB) s) \<and>
     (gameObject bodyA = Some a \<and> gameObject bodyB = Some b \<and>
      objs s a = Some objA \<and> objs s b = Some objB \<and>
      has_trait objA ''lightning'' \<and> has_trait objB ''rusted'' \<longrightarrow>
        scene_view (collisionactive_pair m (bodyA, bodyB) s) b =
          Some (Some (False, has_trait objB ''lightning''), Some ''key'') \<and>
        scene_view (collisionactive_pair m (bodyB, bodyA) s) b =
          Some (Some (False, has_trait objB ''lightning''), Some ''key''))"
proof
  assume frame: "\<forall>force obj. conduction_view (addFire m force obj) = conduction_view obj"
  have order: "scene_view (collisionactive_pair m (bodyA, bodyB) s) =
       scene_view (collisionactive_pair m (bodyB, bodyA) s)"
  proof (cases "gameObject bodyA = None \<or> gameObject bodyB = None")
    case True
    then show ?thesis
      using collisionactive_pair_no_object [of bodyA bodyB m s]
        collisionactive_pair_no_object [of bodyB bodyA m s] by auto
  next
    case False
    then obtain a' b' where ab: "gameObject bodyA = Some a'" "gameObject bodyB = Some b'"
      by auto
    show ?thesis
      by (simp add: scene_view_collisionactive_pair [OF frame ab]
          scene_view_collisionactive_pair [OF frame ab(2) ab(1)] view_step_commute)
  qed
  have again: "scene_view (collisionactive_pair m (bodyA, bodyB)
        (collisionactive_pair m (bodyA, bodyB) s)) =
       scene_view (collisionactive_pair m (bodyA, bodyB) s)"
  proof (cases "gameObject bodyA = None \<or> gameObject bodyB = None")
    case True
    then show ?thesis
      using collisionactive_pair_no_object [of bodyA bodyB m] by auto
  next
    case False
    then obtain a' b' where ab: "gameObject bodyA = Some a'" "gameObject bodyB = Some b'"
      by auto
    show ?thesis
      by (simp add: scene_view_collisionactive_pair [OF frame ab] view_step_idem)
  qed
  have clears: "scene_view (collisionactive_pair m (bodyA, bodyB) s) b =
          Some (Some (False, has_trait objB ''lightning''), Some ''key'') \<and>
        scene_view (collisionactive_pair m (bodyB, bodyA) s) b =
          Some (Some (False, has_trait objB ''lightning''), Some ''key'')"
    if h: "gameObject bodyA = Some a \<and> gameObject bodyB = Some b \<and>
      objs s a = Some objA \<and> objs s b = Some objB \<and>
      has_trait objA ''lightning'' \<and> has_trait objB ''rusted''"
  proof -
    from h have va: "scene_view s a = Some (conduction_view objA)"
      and vb: "scene_view s b = Some (conduction_view objB)"
      by (simp_all add: scene_view_def)
    from h obtain p where p: "obj_prop objB = Some p"
      by (cases "obj_prop objB") (auto simp: has_trait_def)
    from h p have cb: "view_conduct (conduction_view objB) =
        (Some (False, has_trait objB ''lightning''), Some ''key'')"
      by (simp add: view_conduct_def conduction_view_def)
    from h have la: "view_lightning (conduction_view objA)"
      by (simp add: view_lightning_eq)
    have "view_step b a (view_step a b (scene_view s)) b =
        Some (Some (False, has_trait objB ''lightning''), Some ''key'')"
      unfolding view_step_both using va vb cb la
      by (auto simp: view_conduct_idem)
    with h order show ?thesis
      using scene_view_collisionactive_pair [OF frame, of bodyA a bodyB b s] by simp
  qed
  from order again clears
  show "scene_view (collisionactive_pair m (bodyA, bodyB) s) =
       scene_view (collisionactive_pair m (bodyB, bodyA) s) \<and>
     scene_view (collisionactive_pair m (bodyA, bodyB) (collisionactive_pair m (bodyA, bodyB) s)) =
       scene_view (collisionactive_pair m (bodyA, bodyB) s) \<and>
     (gameObject bodyA = Some a \<and> gameObject bodyB = Some b \<and>
      objs s a = Some objA \<and> objs s b = Some objB \<and>
      has_trait objA ''lightning'' \<and> has_trait objB ''rusted'' \<longrightarrow>
        scene_view (collisionactive_pair m (bodyA, bodyB) s) b =
          Some (Some (False, has_trait objB ''lightning''), Some ''key'') \<and>
        scene_view (collisionactive_pair m (bodyB, bodyA) s) b =
          Some (Some (False, has_trait objB ''lightning''), Some ''key''))"
    by blast
qed

lemma sample_addFire_frame:
  "\<forall>force obj. conduction_view (addFire sample_methods force obj) = conduction_view obj"
  by (simp add: sample_methods_def conduction_view_def has_trait_def)

lemma storm_objects:
  "objs storm_scene 1 =
     Some (placeholder_object ''lightning'' (sample_zero(''lightning'' \<mapsto> JBool True)))"
  "objs storm_scene 2 =
     Some ((placeholder_object ''rustedkey'' (sample_zero(''rusted'' \<mapsto> JBool True)))
             \<lparr>cls := RustedKey\<rparr>)"
  by (simp_all add: storm_scene_def)

lemma storm_traits:
  "has_trait (placeholder_object ''lightning'' (sample_zero(''lightning'' \<mapsto> JBool True)))
     ''lightning''"
  "has_trait ((placeholder_object ''rustedkey'' (sample_zero(''rusted'' \<mapsto> JBool True)))
     \<lparr>cls := RustedKey\<rparr>) ''rusted''"
  "\<not> has_trait ((placeholder_object ''rustedkey'' (sample_zero(''rusted'' \<mapsto> JBool True)))
     \<lparr>cls := RustedKey\<rparr>) ''lightning''"
  by (simp_all add: has_trait_def placeholder_object_def sample_zero_def sample_vocabulary_def)

theorem conduction_on_continuing_contact_witness:
  "(\<forall>force obj. conduction_view (addFire sample_methods force obj) = conduction_view obj) \<and>
   gameObject bolt_body = Some 1 \<and> gameObject key_body = Some 2 \<and>
   has_trait (the (objs storm_scene 1)) ''lightning'' \<and>
   has_trait (the (objs storm_scene 2)) ''rusted'' \<and>
   scene_view storm_scene 2 = Some (Some (True, False), Some ''rustedkey'') \<and>
   scene_view (collisionactive_pair sample_methods (bolt_body, key_body) storm_scene) 2 =
     Some (Some (False, False), Some ''key'') \<and>
   scene_view (collisionactive_pair sample_methods (key_body, bolt_body) storm_scene) 2 =
     Some (Some (False, False), Some ''key'') \<and>
   scene_view (collisionactive_pair sample_methods (bolt_body, key_body)
                 (collisionactive_pair sample_methods (bolt_body, key_body) storm_scene)) =
     scene_view (collisionactive_pair sample_methods (key_body, bolt_body) storm_scene)"
proof -
  let ?bolt = "placeholder_object ''lightning'' (sample_zero(''lightning'' \<mapsto> JBool True))"
  let ?key = "(placeholder_object ''rustedkey'' (sample_zero(''rusted'' \<mapsto> JBool True)))
                \<lparr>cls := RustedKey\<rparr>"
  have bodies: "gameObject bolt_body = Some 1 \<and> gameObject key_body = Some 2"
    by (simp add: bolt_body_def key_body_def)
  have before: "scene_view storm_scene 2 = Some (Some (True, False), Some ''rustedkey'')"
    using storm_traits
    by (simp add: scene_view_def storm_objects conduction_view_def)
       (simp add: placeholder_object_def)
  note t = conduction_on_continuing_contact [where m = sample_methods and bodyA = bolt_body
      and bodyB = key_body and s = storm_scene and a = 1 and b = 2 and objA = ?bolt
      and objB = ?key]
  from t sample_addFire_frame bodies storm_objects storm_traits before
  show ?thesis by simp
qed

theorem contact_begin_leaves_rust_counterexample:
  "has_trait (the (objs storm_scene 1)) ''lightning'' \<and>
   has_trait (the (objs storm_scene 2)) ''rusted'' \<and>
   \<not> isl (collisionstart sample_methods 0.9 [(bolt_body, key_body)] storm_scene) \<and>
   has_trait (the (objs (projr
       (collisionstart sample_methods 0.9 [(bolt_body, key_body)] storm_scene)) 2)) ''rusted'' \<and>
   texture (the (objs (projr
       (collisionstart sample_methods 0.9 [(bolt_body, key_body)] storm_scene)) 2))
     = Some ''rustedkey'' \<and>
   \<not> isl (collisionstart sample_methods 0.9 [(key_body, bolt_body)] storm_scene) \<and>
   has_trait (the (objs (projr
       (collisionstart sample_methods 0.9 [(key_body, bolt_body)] storm_scene)) 2)) ''rusted''"
  by (simp add: collisionstart_pair_def Let_def heavy_ref_def has_trait_def storm_scene_def
      bolt_body_def key_body_def placeholder_object_def sample_zero_def sample_vocabulary_def)

subsection \<open>The electrify verb and the conduction rule\<close>

lemma for_each_total:
  "for_each (\<lambda>t. Inr (f t)) targets s = Inr (fold (\<lambda>r. update_obj r f) targets s)"
  by (induction targets arbitrary: s) (auto simp: update_obj_def split: option.splits)

text \<open>
  Claim C7, as the code has it. On a target that is a \<^verbatim>\<open>RustedKey\<close>, or that is not
  rusted, the \<^verbatim>\<open>electrify\<close> verb makes the change that the conduction rule makes on
  contact, and applying the verb to one such target gives the scene that the conduction
  step from a lightning source to it gives. On every target the two paths leave the same
  property set. On a rusted target of another class they part: the collision path sets
  the texture \<^verbatim>\<open>key\<close>, the command path leaves the texture alone.
\<close>

theorem electrify_and_conduction:
  "(cls target = RustedKey \<or> \<not> has_trait target ''rusted'' \<longrightarrow>
      electrify_target target = conduct target) \<and>
   obj_prop (electrify_target target) = obj_prop (conduct target) \<and>
   (has_trait target ''rusted'' \<and> cls target \<noteq> RustedKey \<longrightarrow>
      texture (electrify_target target) = texture target \<and>
      texture (conduct target) = Some ''key'') \<and>
   (objs s a = Some source \<and> objs s b = Some target \<and> has_trait source ''lightning'' \<and>
    (cls target = RustedKey \<or> \<not> has_trait target ''rusted'') \<longrightarrow>
      apply_verb m between ''electrify'' [b] s = Inr (conduct_step a b s))"
proof -
  have same: "cls target = RustedKey \<or> \<not> has_trait target ''rusted'' \<longrightarrow>
      electrify_target target = conduct target"
    by (auto simp: electrify_target_def conduct_def Let_def)
  have props: "obj_prop (electrify_target target) = obj_prop (conduct target)"
    by (simp add: electrify_target_def conduct_def Let_def setTexture_def)
  have apart: "has_trait target ''rusted'' \<and> cls target \<noteq> RustedKey \<longrightarrow>
      texture (electrify_target target) = texture target \<and>
      texture (conduct target) = Some ''key''"
    by (simp add: electrify_target_def conduct_def Let_def setTexture_def clear_rusted_def)
  have scenes: "objs s a = Some source \<and> objs s b = Some target \<and>
    has_trait source ''lightning'' \<and>
    (cls target = RustedKey \<or> \<not> has_trait target ''rusted'') \<longrightarrow>
      apply_verb m between ''electrify'' [b] s = Inr (conduct_step a b s)"
    using same
    by (auto simp: apply_verb_def for_each_total conduct_step_def update_obj_def)
  from same props apart scenes show ?thesis by blast
qed

theorem electrify_and_conduction_witness:
  "cls (the (objs storm_scene 2)) = RustedKey \<and>
   has_trait (the (objs storm_scene 1)) ''lightning'' \<and>
   electrify_target (the (objs storm_scene 2)) = conduct (the (objs storm_scene 2)) \<and>
   texture (electrify_target (the (objs storm_scene 2))) = Some ''key'' \<and>
   \<not> has_trait (electrify_target (the (objs storm_scene 2))) ''rusted'' \<and>
   apply_verb sample_methods sample_between ''electrify'' [2] storm_scene
     = Inr (conduct_step 1 2 storm_scene) \<and>
   has_trait (the (objs storm_scene 3)) ''rusted'' \<and>
   cls (the (objs storm_scene 3)) \<noteq> RustedKey \<and>
   texture (electrify_target (the (objs storm_scene 3))) = Some ''md5:anchor'' \<and>
   texture (conduct (the (objs storm_scene 3))) = Some ''key''"
proof -
  let ?bolt = "placeholder_object ''lightning'' (sample_zero(''lightning'' \<mapsto> JBool True))"
  let ?key = "(placeholder_object ''rustedkey'' (sample_zero(''rusted'' \<mapsto> JBool True)))
                \<lparr>cls := RustedKey\<rparr>"
  let ?anchor = "placeholder_object ''md5:anchor''
      (sample_zero(''rusted'' \<mapsto> JBool True, ''user_generated_obj'' \<mapsto> JBool True))"
  have third: "objs storm_scene 3 = Some ?anchor"
    by (simp add: storm_scene_def)
  have facts: "cls ?key = RustedKey \<and> has_trait ?anchor ''rusted'' \<and> cls ?anchor \<noteq> RustedKey \<and>
      texture ?anchor = Some ''md5:anchor''"
    by (simp add: placeholder_object_def has_trait_def)
  have cleared: "texture (conduct ?key) = Some ''key'' \<and> \<not> has_trait (conduct ?key) ''rusted''"
    using storm_traits(2) by (simp add: conduct_def has_trait_clear_rusted) (simp add: setTexture_def)
  note at_key = electrify_and_conduction [where target = ?key and s = storm_scene and a = 1
      and b = 2 and source = ?bolt and m = sample_methods and between = sample_between]
  note at_anchor = electrify_and_conduction [where target = ?anchor and s = storm_scene
      and a = 1 and b = 3 and source = ?bolt and m = sample_methods and between = sample_between]
  from at_key at_anchor facts cleared storm_objects storm_traits third
  show ?thesis by simp
qed

theorem electrify_leaves_texture_counterexample:
  "has_trait (the (objs storm_scene 3)) ''rusted'' \<and>
   electrify_target (the (objs storm_scene 3)) \<noteq> conduct (the (objs storm_scene 3)) \<and>
   texture (electrify_target (the (objs storm_scene 3))) = Some ''md5:anchor'' \<and>
   texture (conduct (the (objs storm_scene 3))) = Some ''key'' \<and>
   \<not> has_trait (electrify_target (the (objs storm_scene 3))) ''rusted'' \<and>
   \<not> has_trait (conduct (the (objs storm_scene 3))) ''rusted'' \<and>
   apply_verb sample_methods sample_between ''electrify'' [3] storm_scene
     \<noteq> Inr (conduct_step 1 3 storm_scene) \<and>
   \<not> isl (processCommand sample_methods sample_between electrify_rusted storm_scene) \<and>
   texture (the (objs (projr
       (processCommand sample_methods sample_between electrify_rusted storm_scene)) 2))
     = Some ''key'' \<and>
   texture (the (objs (projr
       (processCommand sample_methods sample_between electrify_rusted storm_scene)) 3))
     = Some ''md5:anchor'' \<and>
   texture (the (objs
       (collisionactive_pair sample_methods (bolt_body, anchor_body) storm_scene) 3))
     = Some ''key''"
proof -
  let ?anchor = "placeholder_object ''md5:anchor''
      (sample_zero(''rusted'' \<mapsto> JBool True, ''user_generated_obj'' \<mapsto> JBool True))"
  have third: "objs storm_scene 3 = Some ?anchor"
    by (simp add: storm_scene_def)
  have rusted: "has_trait ?anchor ''rusted''"
    by (simp add: placeholder_object_def has_trait_def)
  have tex: "texture (electrify_target ?anchor) = Some ''md5:anchor'' \<and>
      texture (conduct ?anchor) = Some ''key''"
    using rusted
    by (simp add: electrify_target_def conduct_def Let_def setTexture_def clear_rusted_def
        placeholder_object_def)
  then have differ: "electrify_target ?anchor \<noteq> conduct ?anchor"
    by auto
  have clean: "\<not> has_trait (electrify_target ?anchor) ''rusted'' \<and>
      \<not> has_trait (conduct ?anchor) ''rusted''"
    using rusted
    by (simp add: electrify_target_def conduct_def Let_def has_trait_clear_rusted)
       (simp add: clear_rusted_def has_trait_def placeholder_object_def)
  have verb: "apply_verb sample_methods sample_between ''electrify'' [3] storm_scene
      = Inr (update_obj 3 electrify_target storm_scene)"
    by (simp add: apply_verb_def for_each_total)
  have rule: "conduct_step 1 3 storm_scene = update_obj 3 conduct storm_scene"
    using storm_objects(1) third storm_traits(1) by (simp add: conduct_step_def)
  have "objs (update_obj 3 electrify_target storm_scene) 3 = Some (electrify_target ?anchor)"
    "objs (update_obj 3 conduct storm_scene) 3 = Some (conduct ?anchor)"
    using third by (simp_all add: update_obj_def)
  with differ have "update_obj 3 electrify_target storm_scene \<noteq> update_obj 3 conduct storm_scene"
    by auto
  with verb rule have scenes: "apply_verb sample_methods sample_between ''electrify'' [3] storm_scene
      \<noteq> Inr (conduct_step 1 3 storm_scene)"
    by simp
  have command: "\<not> isl (processCommand sample_methods sample_between electrify_rusted
        storm_scene) \<and>
      texture (the (objs (projr
        (processCommand sample_methods sample_between electrify_rusted storm_scene)) 2))
        = Some ''key'' \<and>
      texture (the (objs (projr
        (processCommand sample_methods sample_between electrify_rusted storm_scene)) 3))
        = Some ''md5:anchor''"
    by code_simp
  have contact: "texture (the (objs
      (collisionactive_pair sample_methods (bolt_body, anchor_body) storm_scene) 3))
      = Some ''key''"
    by code_simp
  from third rusted differ tex clean scenes command contact show ?thesis by simp
qed

subsection \<open>Frame polling\<close>

lemma remove_frame_textures_eq:
  "remove_frame_textures hash T = T - frame_key hash ` {0, 1, 2, 3}"
  by (auto simp: remove_frame_textures_def)

lemma frame_key_not_hash: "frame_key hash i \<noteq> hash"
proof
  assume "frame_key hash i = hash"
  then have "length (frame_key hash i) = length hash" by simp
  then show False by (simp add: frame_key_def)
qed

lemma handleVeoFailure_textures:
  assumes "remove_frame_textures hash T = remove_frame_textures hash (textures s)"
  shows "handleVeoFailure pl hash phaserObj (s\<lparr>textures := T\<rparr>) = handleVeoFailure pl hash phaserObj s"
  using assms by (simp add: handleVeoFailure_def)

lemma tryLoadFrames_scene:
  "handleVeoFailure pl hash phaserObj (snd (tryLoadFrames hash rd s)) =
   handleVeoFailure pl hash phaserObj s"
proof -
  have "remove_frame_textures hash
      (textures s \<union> set (map (frame_key hash) (filter (frame_loads rd) [0, 1, 2, 3])))
      = remove_frame_textures hash (textures s)"
    by (auto simp: remove_frame_textures_eq)
  then show ?thesis
    by (simp add: tryLoadFrames_def handleVeoFailure_textures)
qed

lemma round_not_failed:
  assumes "checkFrameStatus rd = Inr status_data" "member status_data ''ready'' = Inr rdy"
  shows "\<not> round_fails rd"
  using assms by (auto simp: round_fails_def member_def split: if_splits)

lemma round_succeeds_iff:
  assumes "checkFrameStatus rd = Inr status_data" "member status_data ''ready'' = Inr rdy"
  shows "round_succeeds rd \<longleftrightarrow> truthy rdy \<and> fst (tryLoadFrames hash rd s)"
  using assms
  by (auto simp: round_succeeds_def member_def tryLoadFrames_def split: if_splits)

lemma poll_loop_fallback:
  assumes "\<forall>k. n \<le> k \<and> k < maxRetries \<and> round_succeeds (rounds k) \<longrightarrow>
             (\<exists>i. n \<le> i \<and> i < k \<and> round_fails (rounds i))"
  shows "poll_loop animate rounds pl hash phaserObj n s =
         (Fallback, handleVeoFailure pl hash phaserObj s)"
  using assms
proof (induction "maxRetries - n" arbitrary: n s)
  case 0
  then have "\<not> n < maxRetries" by simp
  then show ?case by (subst poll_loop.simps) simp
next
  case (Suc d)
  then have n: "n < maxRetries" by simp
  have not_now: "\<not> round_succeeds (rounds n)"
    using Suc.prems n by force
  show ?case
  proof (cases "checkFrameStatus (rounds n)")
    case (Inl e)
    with n show ?thesis by (subst poll_loop.simps) simp
  next
    case status: (Inr status_data)
    show ?thesis
    proof (cases "member status_data ''ready''")
      case (Inl e)
      with n status show ?thesis by (subst poll_loop.simps) simp
    next
      case rdy: (Inr rdy)
      note not_failed = round_not_failed [OF status rdy]
      note succeeds = round_succeeds_iff [OF status rdy, of hash s]
      have later: "\<forall>k. Suc n \<le> k \<and> k < maxRetries \<and> round_succeeds (rounds k) \<longrightarrow>
             (\<exists>i. Suc n \<le> i \<and> i < k \<and> round_fails (rounds i))"
      proof (intro allI impI)
        fix k
        assume k: "Suc n \<le> k \<and> k < maxRetries \<and> round_succeeds (rounds k)"
        with Suc.prems obtain i where i: "n \<le> i" "i < k" "round_fails (rounds i)"
          by (meson Suc_leD)
        with not_failed have "i \<noteq> n" by auto
        with i show "\<exists>i. Suc n \<le> i \<and> i < k \<and> round_fails (rounds i)"
          by (intro exI [of _ i]) simp
      qed
      have d: "d = maxRetries - Suc n" using Suc.hyps(2) by simp
      note ih = Suc.hyps(1) [OF d later]
      from not_now succeeds have no: "\<not> (truthy rdy \<and> fst (tryLoadFrames hash (rounds n) s))"
        by simp
      show ?thesis
        using n status rdy no ih
        by (subst poll_loop.simps) (auto simp: Let_def tryLoadFrames_scene)
    qed
  qed
qed

lemma handleVeoFailure_frames:
  "i < 4 \<Longrightarrow> frame_key hash i \<notin> textures (handleVeoFailure pl hash phaserObj s)"
proof -
  assume "i < 4"
  then have "i \<in> {0, 1, 2, 3}" by auto
  then have gone: "frame_key hash i \<notin> remove_frame_textures hash (textures s)"
    unfolding remove_frame_textures_eq by blast
  have tex: "textures (update_obj r f t) = textures t" for r f and t :: scene
    by (simp add: update_obj_def split: option.splits)
  show ?thesis
    using gone frame_key_not_hash [of hash i]
    by (auto simp: handleVeoFailure_def Let_def tex split: option.splits)
qed

lemma handleVeoFailure_object:
  assumes "objs s r = Some obj" "\<not> destroyed obj"
  shows "objs (handleVeoFailure pl hash (Some r) s) r =
         Some (updateObject (Some hash) (obj_prop obj) (stop_blink obj))"
  using assms
  by (auto simp: handleVeoFailure_def Let_def update_obj_def stop_blink_def
      split: option.splits)

text \<open>
  Claim C3. Suppose that within the budget of 30 rounds no round both reports ready and
  loads its four frames before some round has observed an error. This covers a status
  that is never ready, frames that are declared ready and never load, and an error observed
  at any round. Then \<^verbatim>\<open>pollForFramesAndShowAnimation\<close> ends in the fallback: it returns what
  \<^verbatim>\<open>handleVeoFailure\<close> makes of the scene, no texture \<^verbatim>\<open>genframe_{hash}_{0..3}\<close> is left, and
  an entity that is still in the scene shows the static image \<^verbatim>\<open>hash\<close>, keeps the animation
  state it had, and, if it was blinking, has its blink tween stopped and its alpha set
  to 1.
\<close>

theorem poll_exhaustion_falls_back:
  "(\<forall>k<maxRetries. round_succeeds (rounds k) \<longrightarrow> (\<exists>i<k. round_fails (rounds i))) \<longrightarrow>
     maxRetries = 30 \<and>
     pollForFramesAndShowAnimation animate rounds loads hash phaserObj s =
       (Fallback, handleVeoFailure loads hash phaserObj s) \<and>
     (\<forall>i<4. frame_key hash i \<notin>
        textures (snd (pollForFramesAndShowAnimation animate rounds loads hash
                         phaserObj s))) \<and>
     (phaserObj = Some r \<and> objs s r = Some obj \<and> \<not> destroyed obj \<longrightarrow>
        (\<exists>obj'. objs (snd (pollForFramesAndShowAnimation animate rounds loads hash
                             phaserObj s)) r = Some obj' \<and>
           texture obj' = Some hash \<and> animation obj' = animation obj \<and> \<not> destroyed obj' \<and>
           (blinkTween obj \<noteq> None \<longrightarrow>
              blinkTween obj' = Some \<lparr>playing = False\<rparr> \<and> alpha obj' = 1) \<and>
           (blinkTween obj = None \<longrightarrow> blinkTween obj' = None \<and> alpha obj' = alpha obj)))"
proof
  assume budget: "\<forall>k<maxRetries. round_succeeds (rounds k) \<longrightarrow> (\<exists>i<k. round_fails (rounds i))"
  then have "\<forall>k. 0 \<le> k \<and> k < maxRetries \<and> round_succeeds (rounds k) \<longrightarrow>
             (\<exists>i. 0 \<le> i \<and> i < k \<and> round_fails (rounds i))"
    by simp
  then have result:
    "pollForFramesAndShowAnimation animate rounds loads hash phaserObj s =
       (Fallback, handleVeoFailure loads hash phaserObj s)"
    unfolding pollForFramesAndShowAnimation_def by (rule poll_loop_fallback)
  have frames: "\<forall>i<4. frame_key hash i \<notin>
        textures (snd (pollForFramesAndShowAnimation animate rounds loads hash
                         phaserObj s))"
    by (simp add: result handleVeoFailure_frames)
  have entity: "\<exists>obj'. objs (snd (pollForFramesAndShowAnimation animate rounds
                             loads hash phaserObj s)) r = Some obj' \<and>
           texture obj' = Some hash \<and> animation obj' = animation obj \<and> \<not> destroyed obj' \<and>
           (blinkTween obj \<noteq> None \<longrightarrow>
              blinkTween obj' = Some \<lparr>playing = False\<rparr> \<and> alpha obj' = 1) \<and>
           (blinkTween obj = None \<longrightarrow> blinkTween obj' = None \<and> alpha obj' = alpha obj)"
    if h: "phaserObj = Some r \<and> objs s r = Some obj \<and> \<not> destroyed obj"
  proof -
    from h result have "objs (snd (pollForFramesAndShowAnimation animate rounds loads hash
        phaserObj s)) r = Some (updateObject (Some hash) (obj_prop obj) (stop_blink obj))"
      by (auto simp: handleVeoFailure_object)
    moreover have "texture (updateObject (Some hash) (obj_prop obj) (stop_blink obj)) = Some hash"
      by (simp add: updateObject_def)
    moreover have "animation (updateObject (Some hash) (obj_prop obj) (stop_blink obj))
        = animation obj"
      by (simp add: updateObject_def stop_blink_def split: option.splits)
    moreover have "destroyed (updateObject (Some hash) (obj_prop obj) (stop_blink obj))
        = destroyed obj"
      by (simp add: updateObject_def stop_blink_def split: option.splits)
    moreover have "blinkTween obj \<noteq> None \<longrightarrow>
        blinkTween (updateObject (Some hash) (obj_prop obj) (stop_blink obj))
          = Some \<lparr>playing = False\<rparr> \<and>
        alpha (updateObject (Some hash) (obj_prop obj) (stop_blink obj)) = 1"
      by (auto simp: updateObject_def stop_blink_def)
    moreover have "blinkTween obj = None \<longrightarrow>
        blinkTween (updateObject (Some hash) (obj_prop obj) (stop_blink obj)) = None \<and>
        alpha (updateObject (Some hash) (obj_prop obj) (stop_blink obj)) = alpha obj"
      by (simp add: updateObject_def stop_blink_def)
    ultimately show ?thesis using h by simp
  qed
  from result frames entity
  show "maxRetries = 30 \<and>
     pollForFramesAndShowAnimation animate rounds loads hash phaserObj s =
       (Fallback, handleVeoFailure loads hash phaserObj s) \<and>
     (\<forall>i<4. frame_key hash i \<notin>
        textures (snd (pollForFramesAndShowAnimation animate rounds loads hash
                         phaserObj s))) \<and>
     (phaserObj = Some r \<and> objs s r = Some obj \<and> \<not> destroyed obj \<longrightarrow>
        (\<exists>obj'. objs (snd (pollForFramesAndShowAnimation animate rounds loads hash
                             phaserObj s)) r = Some obj' \<and>
           texture obj' = Some hash \<and> animation obj' = animation obj \<and> \<not> destroyed obj' \<and>
           (blinkTween obj \<noteq> None \<longrightarrow>
              blinkTween obj' = Some \<lparr>playing = False\<rparr> \<and> alpha obj' = 1) \<and>
           (blinkTween obj = None \<longrightarrow> blinkTween obj' = None \<and> alpha obj' = alpha obj)))"
    by (simp add: maxRetries_def)
qed

lemma sample_rounds:
  "\<not> round_succeeds not_ready_round" "\<not> round_succeeds partial_round"
  "round_fails error_round" "round_succeeds ready_round" "\<not> round_succeeds error_round"
  by (simp_all add: round_succeeds_def round_fails_def checkFrameStatus_def member_def
      not_ready_round_def partial_round_def error_round_def ready_round_def ready_reply_def
      json_reply_def not_found_def)

lemma veo_object:
  "objs veo_scene 1 = Some ((placeholder_object ''drawing'' sample_default)
      \<lparr>blinkTween := Some \<lparr>playing = True\<rparr>, alpha := 0.3\<rparr>)"
  by (simp add: veo_scene_def)

theorem poll_exhaustion_falls_back_witness:
  "\<not> round_succeeds not_ready_round \<and>
   \<not> round_succeeds (mixed_rounds 0) \<and> round_fails (mixed_rounds 1) \<and>
   round_succeeds (mixed_rounds 2) \<and>
   blinkTween (the (objs veo_scene 1)) = Some \<lparr>playing = True\<rparr> \<and>
   \<not> destroyed (the (objs veo_scene 1)) \<and>
   fst (pollForFramesAndShowAnimation (\<lambda>hash frameKeys phaserObj s. s) (\<lambda>n. not_ready_round)
          True ''abc'' (Some 1) veo_scene) = Fallback \<and>
   fst (pollForFramesAndShowAnimation (\<lambda>hash frameKeys phaserObj s. s) mixed_rounds
          True ''abc'' (Some 1) veo_scene) = Fallback \<and>
   ''genframe_abc_3'' \<notin> textures (snd (pollForFramesAndShowAnimation
          (\<lambda>hash frameKeys phaserObj s. s) mixed_rounds True ''abc'' (Some 1) veo_scene)) \<and>
   (\<exists>obj'. objs (snd (pollForFramesAndShowAnimation (\<lambda>hash frameKeys phaserObj s. s)
                        mixed_rounds True ''abc'' (Some 1) veo_scene)) 1 = Some obj' \<and>
           texture obj' = Some ''abc'' \<and> animation obj' = None \<and>
           blinkTween obj' = Some \<lparr>playing = False\<rparr> \<and> alpha obj' = 1)"
proof -
  let ?obj = "(placeholder_object ''drawing'' sample_default)
      \<lparr>blinkTween := Some \<lparr>playing = True\<rparr>, alpha := 0.3\<rparr>"
  let ?id = "\<lambda>(hash::string) (frameKeys::string list) (phaserObj::nat option) (s::scene). s"
  have never: "\<forall>k<maxRetries. round_succeeds ((\<lambda>n. not_ready_round) k) \<longrightarrow>
      (\<exists>i<k. round_fails ((\<lambda>n. not_ready_round) i))"
    by (simp add: sample_rounds)
  have mixed: "\<forall>k<maxRetries. round_succeeds (mixed_rounds k) \<longrightarrow>
      (\<exists>i<k. round_fails (mixed_rounds i))"
  proof (intro allI impI)
    fix k
    assume "k < maxRetries" and ok: "round_succeeds (mixed_rounds k)"
    from ok have "1 < k"
      by (cases "k = 0"; cases "k = 1") (simp_all add: mixed_rounds_def sample_rounds)
    moreover have "round_fails (mixed_rounds 1)"
      by (simp add: mixed_rounds_def sample_rounds)
    ultimately show "\<exists>i<k. round_fails (mixed_rounds i)" by blast
  qed
  have third: "round_succeeds (mixed_rounds 2)"
    by (simp add: mixed_rounds_def sample_rounds)
  have obj: "blinkTween ?obj = Some \<lparr>playing = True\<rparr> \<and> \<not> destroyed ?obj \<and>
      animation ?obj = None"
    by (simp add: placeholder_object_def)
  have key: "frame_key ''abc'' 3 = ''genframe_abc_3''"
    by (simp add: frame_key_def string_of_nat_digit decimal_digit_def)
  note quiet = poll_exhaustion_falls_back [where rounds = "\<lambda>n. not_ready_round"
      and animate = ?id and loads = True and hash = "''abc''"
      and phaserObj = "Some 1" and s = veo_scene and r = 1 and obj = ?obj]
  note noisy = poll_exhaustion_falls_back [where rounds = mixed_rounds
      and animate = ?id and loads = True and hash = "''abc''"
      and phaserObj = "Some 1" and s = veo_scene and r = 1 and obj = ?obj]
  from quiet never have a: "fst (pollForFramesAndShowAnimation ?id (\<lambda>n. not_ready_round)
          True ''abc'' (Some 1) veo_scene) = Fallback"
    by simp
  from noisy mixed have b: "fst (pollForFramesAndShowAnimation ?id mixed_rounds
          True ''abc'' (Some 1) veo_scene) = Fallback"
    by simp
  from noisy mixed have "\<forall>i<4. frame_key ''abc'' i \<notin> textures (snd
      (pollForFramesAndShowAnimation ?id mixed_rounds True ''abc'' (Some 1) veo_scene))"
    by blast
  then have "frame_key ''abc'' 3 \<notin> textures (snd
      (pollForFramesAndShowAnimation ?id mixed_rounds True ''abc'' (Some 1) veo_scene))"
    by simp
  with key have c: "''genframe_abc_3'' \<notin> textures (snd
      (pollForFramesAndShowAnimation ?id mixed_rounds True ''abc'' (Some 1) veo_scene))"
    by simp
  from noisy mixed veo_object obj have d:
    "\<exists>obj'. objs (snd (pollForFramesAndShowAnimation ?id mixed_rounds True ''abc'' (Some 1)
                        veo_scene)) 1 = Some obj' \<and>
           texture obj' = Some ''abc'' \<and> animation obj' = None \<and>
           blinkTween obj' = Some \<lparr>playing = False\<rparr> \<and> alpha obj' = 1"
    by auto
  have rounds: "\<not> round_succeeds not_ready_round \<and> \<not> round_succeeds (mixed_rounds 0) \<and>
      round_fails (mixed_rounds 1)"
    by (simp add: mixed_rounds_def sample_rounds)
  from rounds third obj veo_object a b c d show ?thesis by simp
qed

subsection \<open>A run without a classification\<close>

lemma fresh_refs:
  assumes "well_formed s"
  shows "next_ref s \<notin> set (children s)" "Suc (next_ref s) \<notin> set (children s)"
  using assms by (auto simp: well_formed_def list_all_iff)

lemma classify_no_result:
  assumes "\<not> truthy (analyzeDrawingWithOllama (ollama_fetch env))"
    and "sendImageDataToServerForAnalysis (analysis_fetch env) = Inr no_result"
    and "\<not> truthy no_result"
  shows "classify env = Inl (Error ''No response from server'')"
  using assms by (simp add: classify_def)

lemma processCanvas_on_error:
  assumes "classify env = Inl e"
  shows "processCanvas env s =
     cleanup_after_error (next_ref s) (Suc (next_ref s))
       (startFollow (Suc (next_ref s)) (next_ref s)
          (snd (createLoadingParticles (imageGenerator env)
             (snd (add_userobject
                (userobject env (extractCanvas env)
                   ((getDefaultWorldObjProp env)
                      (''solid'' \<mapsto> JBool False, ''generating'' \<mapsto> JBool True))) s)))))"
  using assms
  by (simp add: processCanvas_def run_pipeline_def Let_def add_userobject_def
      createLoadingParticles_def add_particles_def)

lemma cleanup_after_error_fields:
  assumes "objs s r = Some obj" "particles s lp = Some e" "r \<noteq> lp"
  shows "children (cleanup_after_error r lp s) = removeAll r (removeAll lp (children s))"
    and "objs (cleanup_after_error r lp s) =
           (objs s)(r \<mapsto> (stop_effects (stop_blink obj))\<lparr>destroyed := True\<rparr>)"
    and "particles (cleanup_after_error r lp s) =
           (particles s)(lp \<mapsto> e\<lparr>emitting := False, removed := True\<rparr>)"
    and "drawingInProgress (cleanup_after_error r lp s) = False"
    and "mouseDown (cleanup_after_error r lp s) = False"
    and "textures (cleanup_after_error r lp s) = textures s"
  using assms
  by (simp_all add: cleanup_after_error_def reset_drawing_state_def destroy_object_def
      update_obj_def destroy_particles_def stop_particles_def on_particles_def)

text \<open>
  Claim C2. If the first classification backend returns no result and the fallback
  returns no result either, the run ends in the clean-up of the \<^verbatim>\<open>catch\<close> block: the
  loading particles are stopped and destroyed, the placeholder is destroyed, the display
  list is what it was before the run, no other object and no texture has changed, and the
  drawing state is reset.
\<close>

theorem no_classification_aborts_with_cleanup:
  "\<not> truthy (analyzeDrawingWithOllama (ollama_fetch env)) \<and>
   sendImageDataToServerForAnalysis (analysis_fetch env) = Inr no_result \<and>
   \<not> truthy no_result \<and> well_formed s \<longrightarrow>
     children (processCanvas env s) = children s \<and>
     next_ref s \<notin> set (children (processCanvas env s)) \<and>
     Suc (next_ref s) \<notin> set (children (processCanvas env s)) \<and>
     (\<exists>obj. objs (processCanvas env s) (next_ref s) = Some obj \<and> destroyed obj) \<and>
     (\<exists>e. particles (processCanvas env s) (Suc (next_ref s)) = Some e \<and>
          \<not> emitting e \<and> removed e) \<and>
     (\<forall>r. r \<noteq> next_ref s \<longrightarrow> objs (processCanvas env s) r = objs s r) \<and>
     textures (processCanvas env s) = textures s \<and>
     \<not> drawingInProgress (processCanvas env s) \<and> \<not> mouseDown (processCanvas env s)"
proof
  assume h: "\<not> truthy (analyzeDrawingWithOllama (ollama_fetch env)) \<and>
   sendImageDataToServerForAnalysis (analysis_fetch env) = Inr no_result \<and>
   \<not> truthy no_result \<and> well_formed s"
  let ?r = "next_ref s"
  let ?lp = "Suc (next_ref s)"
  let ?obj = "userobject env (extractCanvas env)
      ((getDefaultWorldObjProp env)(''solid'' \<mapsto> JBool False, ''generating'' \<mapsto> JBool True))"
  let ?s1 = "startFollow ?lp ?r
      (snd (createLoadingParticles (imageGenerator env) (snd (add_userobject ?obj s))))"
  from h have "classify env = Inl (Error ''No response from server'')"
    by (simp add: classify_no_result)
  then have run: "processCanvas env s = cleanup_after_error ?r ?lp ?s1"
    by (rule processCanvas_on_error)
  have obj: "objs ?s1 ?r = Some ?obj"
    by (simp add: startFollow_def on_particles_def createLoadingParticles_def
        add_particles_def add_userobject_def Let_def)
  obtain e where e: "particles ?s1 ?lp = Some e"
    by (simp add: startFollow_def on_particles_def createLoadingParticles_def
        add_particles_def add_userobject_def Let_def)
  have kids: "children ?s1 = children s @ [?r, ?lp]"
    by (simp add: startFollow_def on_particles_def createLoadingParticles_def
        add_particles_def add_userobject_def Let_def)
  have others: "objs ?s1 = (objs s)(?r \<mapsto> ?obj)" "textures ?s1 = textures s"
    by (simp_all add: startFollow_def on_particles_def createLoadingParticles_def
        add_particles_def add_userobject_def Let_def)
  have ne: "?r \<noteq> ?lp" by simp
  note after = cleanup_after_error_fields [OF obj e ne]
  from h have fresh: "?r \<notin> set (children s)" "?lp \<notin> set (children s)"
    by (simp_all add: fresh_refs)
  have display: "children (processCanvas env s) = children s"
    using fresh by (simp add: run after(1) kids removeAll_id)
  show "children (processCanvas env s) = children s \<and>
     next_ref s \<notin> set (children (processCanvas env s)) \<and>
     Suc (next_ref s) \<notin> set (children (processCanvas env s)) \<and>
     (\<exists>obj. objs (processCanvas env s) (next_ref s) = Some obj \<and> destroyed obj) \<and>
     (\<exists>e. particles (processCanvas env s) (Suc (next_ref s)) = Some e \<and>
          \<not> emitting e \<and> removed e) \<and>
     (\<forall>r. r \<noteq> next_ref s \<longrightarrow> objs (processCanvas env s) r = objs s r) \<and>
     textures (processCanvas env s) = textures s \<and>
     \<not> drawingInProgress (processCanvas env s) \<and> \<not> mouseDown (processCanvas env s)"
    using display fresh
    by (simp add: run after(2-6) others)
qed

lemma unavailable_backends:
  "\<not> truthy (analyzeDrawingWithOllama (Inr unavailable))"
  "sendImageDataToServerForAnalysis (Inr unavailable) = Inr JNull"
  by (simp_all add: analyzeDrawingWithOllama_def sendImageDataToServerForAnalysis_def
      unavailable_def)

theorem no_classification_aborts_with_cleanup_witness:
  "\<not> truthy (analyzeDrawingWithOllama (ollama_fetch (sample_env\<lparr>ollama_fetch := Inr unavailable\<rparr>))) \<and>
   sendImageDataToServerForAnalysis (analysis_fetch (sample_env\<lparr>ollama_fetch := Inr unavailable\<rparr>))
     = Inr JNull \<and>
   \<not> truthy JNull \<and> well_formed sample_scene \<and>
   children (processCanvas (sample_env\<lparr>ollama_fetch := Inr unavailable\<rparr>) sample_scene) = [0] \<and>
   (\<exists>obj. objs (processCanvas (sample_env\<lparr>ollama_fetch := Inr unavailable\<rparr>) sample_scene) 1
            = Some obj \<and> destroyed obj) \<and>
   (\<exists>e. particles (processCanvas (sample_env\<lparr>ollama_fetch := Inr unavailable\<rparr>) sample_scene) 2
          = Some e \<and> \<not> emitting e \<and> removed e) \<and>
   \<not> drawingInProgress (processCanvas (sample_env\<lparr>ollama_fetch := Inr unavailable\<rparr>) sample_scene)"
proof -
  let ?env = "sample_env\<lparr>ollama_fetch := Inr unavailable\<rparr>"
  have backends: "\<not> truthy (analyzeDrawingWithOllama (ollama_fetch ?env)) \<and>
      sendImageDataToServerForAnalysis (analysis_fetch ?env) = Inr JNull \<and> \<not> truthy JNull"
    by (simp add: unavailable_backends sample_env_def)
  have scene: "well_formed sample_scene \<and> children sample_scene = [0] \<and>
      next_ref sample_scene = 1"
    by (simp add: well_formed_def sample_scene_def)
  from backends scene
    no_classification_aborts_with_cleanup [where env = ?env and no_result = JNull
      and s = sample_scene]
  show ?thesis by (simp add: numeral_2_eq_2)
qed

subsection \<open>The run around its try block\<close>

lemma processCanvas_try:
  "processCanvas env s =
     (case run_pipeline env (next_ref s) (Suc (next_ref s)) (try_entry env s) of
        (None, s2) \<Rightarrow> s2
      | (Some e, s2) \<Rightarrow> cleanup_after_error (next_ref s) (Suc (next_ref s)) s2)"
proof -
  have r: "fst (add_userobject obj s) = next_ref s" for obj
    by (simp add: add_userobject_def Let_def)
  have lp: "fst (createLoadingParticles g (snd (add_userobject obj s))) = Suc (next_ref s)"
    for g obj
    by (simp add: createLoadingParticles_def add_particles_def add_userobject_def Let_def)
  show ?thesis
    by (simp only: processCanvas_def try_entry_def initial_placeholder_def Let_def r lp)
qed

lemma try_entry_fields:
  "objs (try_entry env s) = (objs s)(next_ref s \<mapsto> initial_placeholder env)"
  "\<exists>e. particles (try_entry env s) (Suc (next_ref s)) = Some e"
  "children (try_entry env s) = children s @ [next_ref s, Suc (next_ref s)]"
  "textures (try_entry env s) = textures s"
  by (simp_all add: try_entry_def startFollow_def on_particles_def createLoadingParticles_def
      add_particles_def add_userobject_def Let_def)

lemma classified_run:
  assumes "classify env = Inr geminiResponse"
    and "\<not> truthy (field geminiResponse ''shouldRemove'')"
  shows "run_pipeline env r lp s = resolve_and_generate env r lp geminiResponse s"
  using assms by (simp add: run_pipeline_def)

lemma aborted_run:
  assumes run: "run_pipeline env (next_ref s) (Suc (next_ref s)) (try_entry env s) = (Some e, s2)"
    and obj: "objs s2 (next_ref s) = Some obj"
    and em: "particles s2 (Suc (next_ref s)) = Some em"
    and kids: "children s2 = children s @ [next_ref s, Suc (next_ref s)]"
    and wf: "well_formed s"
  shows "processCanvas env s = cleanup_after_error (next_ref s) (Suc (next_ref s)) s2"
    and "children (processCanvas env s) = children s"
    and "objs (processCanvas env s) (next_ref s)
           = Some ((stop_effects (stop_blink obj))\<lparr>destroyed := True\<rparr>)"
    and "particles (processCanvas env s) (Suc (next_ref s))
           = Some (em\<lparr>emitting := False, removed := True\<rparr>)"
    and "\<not> drawingInProgress (processCanvas env s)"
    and "\<not> mouseDown (processCanvas env s)"
proof -
  show run': "processCanvas env s = cleanup_after_error (next_ref s) (Suc (next_ref s)) s2"
    using run by (simp add: processCanvas_try)
  have ne: "next_ref s \<noteq> Suc (next_ref s)" by simp
  note after = cleanup_after_error_fields [OF obj em ne]
  from wf have fresh: "next_ref s \<notin> set (children s)" "Suc (next_ref s) \<notin> set (children s)"
    by (simp_all add: fresh_refs)
  show "children (processCanvas env s) = children s"
    using fresh by (simp add: run' after(1) kids removeAll_id)
  show "objs (processCanvas env s) (next_ref s)
           = Some ((stop_effects (stop_blink obj))\<lparr>destroyed := True\<rparr>)"
    by (simp add: run' after(2))
  show "particles (processCanvas env s) (Suc (next_ref s))
           = Some (em\<lparr>emitting := False, removed := True\<rparr>)"
    by (simp add: run' after(3))
  show "\<not> drawingInProgress (processCanvas env s)" "\<not> mouseDown (processCanvas env s)"
    by (simp_all add: run' after(4,5))
qed

lemma own_props_first: "own_props (JArr (x # xs)) ''0'' = Some x"
proof -
  have "[0..<Suc (length xs)] = 0 # [Suc 0..<Suc (length xs)]"
    by (simp add: upt_rec)
  moreover have "string_of_nat 0 = ''0''"
    by (simp add: string_of_nat_digit decimal_digit_def)
  ultimately show ?thesis by simp
qed

lemma untyped_response:
  "\<not> has_type_name geminiResponse \<Longrightarrow>
     resolve_and_generate env r lp geminiResponse s = (Some TypeError, s)"
  by (cases "field geminiResponse ''type''")
     (simp_all add: resolve_and_generate_def str_toLowerCase_def has_type_name_def)

subsection \<open>Property resolution inside the run\<close>

text \<open>
  Claim C8, as the code has it. \<^verbatim>\<open>extractPropertiesFromGeminiData\<close> never throws. A response
  whose \<^verbatim>\<open>properties\<close> is an object is laid over the zero set, and an array counts as an
  object there: its indices become keys of the result. Otherwise a response whose
  \<^verbatim>\<open>attributes\<close> is an array switches on the listed traits of the zero set. Every other
  response, \<^verbatim>\<open>undefined\<close> and \<^verbatim>\<open>null\<close> among them, gives the default set. In \<^verbatim>\<open>processCanvas\<close>
  the defaults lie under the extracted set, which overrides them on each of its keys, and
  \<^verbatim>\<open>user_generated_obj\<close> is set on top. The run itself goes on to the generation call, with
  the merged set, only for a response that carries a string \<^verbatim>\<open>type\<close>. A classification that
  is \<^verbatim>\<open>undefined\<close> or \<^verbatim>\<open>null\<close> ends the run with the error "No response from server",
  and a response without a string \<^verbatim>\<open>type\<close> ends it with a TypeError before the properties are
  extracted: in both cases the \<^verbatim>\<open>catch\<close> block destroys the placeholder.
\<close>

theorem extract_total_run_needs_type:
  "(\<exists>p. extractPropertiesFromGeminiData zeroProp defaultProp rawData = Inr p) \<and>
   extractPropertiesFromGeminiData zeroProp defaultProp JUndefined = Inr defaultProp \<and>
   extractPropertiesFromGeminiData zeroProp defaultProp JNull = Inr defaultProp \<and>
   (has_property_map rawData \<longrightarrow>
      (\<exists>p. extractPropertiesFromGeminiData zeroProp defaultProp rawData = Inr p \<and>
           (\<forall>k. p k = (case own_props (field rawData ''properties'') k of
                          Some v \<Rightarrow> Some v
                        | None \<Rightarrow> zeroProp k)))) \<and>
   (field rawData ''properties'' = JArr (x # xs) \<longrightarrow>
      (\<exists>p. extractPropertiesFromGeminiData zeroProp defaultProp rawData = Inr p \<and>
           p ''0'' = Some x)) \<and>
   (has_attribute_list rawData \<longrightarrow>
      (\<exists>p. extractPropertiesFromGeminiData zeroProp defaultProp rawData = Inr p \<and>
           (\<forall>k. p k = (if k \<in> dom zeroProp \<and> JStr k \<in> set (elements (field rawData ''attributes''))
                        then Some (JBool True) else zeroProp k)))) \<and>
   (\<not> has_property_map rawData \<and> \<not> has_attribute_list rawData \<longrightarrow>
      extractPropertiesFromGeminiData zeroProp defaultProp rawData = Inr defaultProp) \<and>
   (\<forall>k. mergeProperties defaultProp additionalProperties k =
          (if k = ''user_generated_obj'' then Some (JBool True)
           else case additionalProperties k of
                  Some v \<Rightarrow> Some v
                | None \<Rightarrow> defaultProp k)) \<and>
   (field rawData ''type'' = JStr type_name \<longrightarrow>
      (\<exists>p. extractPropertiesFromGeminiData (getZeroWorldObjProp env)
              (getDefaultWorldObjProp env) rawData = Inr p \<and>
           resolve_and_generate env phaserObj loadingParticles rawData s =
             (case sendToImageGenerationBackend (imageGenerator env) (generation_fetch env) of
                Inl e \<Rightarrow>
                  (Some e,
                   update_obj phaserObj (\<lambda>obj. obj\<lparr>name := toLowerCase (toLowerCase type_name)\<rparr>) s)
              | Inr generatedImageData \<Rightarrow>
                  apply_generated env phaserObj loadingParticles p
                    (mergeProperties (getDefaultWorldObjProp env) p) generatedImageData
                    (update_obj phaserObj
                       (\<lambda>obj. obj\<lparr>name := toLowerCase (toLowerCase type_name)\<rparr>) s)))) \<and>
   (\<not> has_type_name rawData \<longrightarrow>
      resolve_and_generate env phaserObj loadingParticles rawData s = (Some TypeError, s)) \<and>
   (classify env = Inr rawData \<and> \<not> truthy (field rawData ''shouldRemove'') \<and>
    \<not> has_type_name rawData \<and> well_formed s \<longrightarrow>
      processCanvas env s
        = cleanup_after_error (next_ref s) (Suc (next_ref s)) (try_entry env s) \<and>
      children (processCanvas env s) = children s \<and>
      (\<exists>obj. objs (processCanvas env s) (next_ref s) = Some obj \<and> destroyed obj)) \<and>
   (\<not> truthy (analyzeDrawingWithOllama (ollama_fetch env)) \<and>
    sendImageDataToServerForAnalysis (analysis_fetch env) = Inr no_result \<and>
    \<not> truthy no_result \<longrightarrow>
      run_pipeline env phaserObj loadingParticles s
        = (Some (Error ''No response from server''), s))"
proof -
  have total: "\<exists>p. extractPropertiesFromGeminiData zeroProp defaultProp rawData = Inr p"
    by (simp add: extract_cases)
  have undef: "extractPropertiesFromGeminiData zeroProp defaultProp JUndefined = Inr defaultProp"
    by (simp add: extractPropertiesFromGeminiData_def)
  have null: "extractPropertiesFromGeminiData zeroProp defaultProp JNull = Inr defaultProp"
    by (simp add: extractPropertiesFromGeminiData_def)
  have mapped: "has_property_map rawData \<longrightarrow>
      (\<exists>p. extractPropertiesFromGeminiData zeroProp defaultProp rawData = Inr p \<and>
           (\<forall>k. p k = (case own_props (field rawData ''properties'') k of
                          Some v \<Rightarrow> Some v
                        | None \<Rightarrow> zeroProp k)))"
    by (simp add: extract_cases map_add_def)
  have indexed: "field rawData ''properties'' = JArr (x # xs) \<longrightarrow>
      (\<exists>p. extractPropertiesFromGeminiData zeroProp defaultProp rawData = Inr p \<and>
           p ''0'' = Some x)"
  proof
    assume arr: "field rawData ''properties'' = JArr (x # xs)"
    then have "has_property_map rawData"
      by (simp add: has_property_map_def)
    then have extracted: "extractPropertiesFromGeminiData zeroProp defaultProp rawData
        = Inr (zeroProp ++ own_props (JArr (x # xs)))"
      using arr by (simp add: extract_cases)
    have first: "(zeroProp ++ own_props (JArr (x # xs))) ''0'' = Some x"
      by (simp only: map_add_Some_iff own_props_first simp_thms)
    show "\<exists>p. extractPropertiesFromGeminiData zeroProp defaultProp rawData = Inr p \<and>
           p ''0'' = Some x"
      by (rule exI [where x = "zeroProp ++ own_props (JArr (x # xs))"])
        (rule conjI [OF extracted first])
  qed
  have listed: "has_attribute_list rawData \<longrightarrow>
      (\<exists>p. extractPropertiesFromGeminiData zeroProp defaultProp rawData = Inr p \<and>
           (\<forall>k. p k = (if k \<in> dom zeroProp \<and> JStr k \<in> set (elements (field rawData ''attributes''))
                        then Some (JBool True) else zeroProp k)))"
    by (auto simp: extract_cases mark_attributes_def dest: shapes_exclusive)
  have other: "\<not> has_property_map rawData \<and> \<not> has_attribute_list rawData \<longrightarrow>
      extractPropertiesFromGeminiData zeroProp defaultProp rawData = Inr defaultProp"
    by (simp add: extract_cases)
  have merged: "\<forall>k. mergeProperties defaultProp additionalProperties k =
          (if k = ''user_generated_obj'' then Some (JBool True)
           else case additionalProperties k of
                  Some v \<Rightarrow> Some v
                | None \<Rightarrow> defaultProp k)"
    by (simp add: mergeProperties_def map_add_def)
  have typed: "field rawData ''type'' = JStr type_name \<longrightarrow>
      (\<exists>p. extractPropertiesFromGeminiData (getZeroWorldObjProp env)
              (getDefaultWorldObjProp env) rawData = Inr p \<and>
           resolve_and_generate env phaserObj loadingParticles rawData s =
             (case sendToImageGenerationBackend (imageGenerator env) (generation_fetch env) of
                Inl e \<Rightarrow>
                  (Some e,
                   update_obj phaserObj (\<lambda>obj. obj\<lparr>name := toLowerCase (toLowerCase type_name)\<rparr>) s)
              | Inr generatedImageData \<Rightarrow>
                  apply_generated env phaserObj loadingParticles p
                    (mergeProperties (getDefaultWorldObjProp env) p) generatedImageData
                    (update_obj phaserObj
                       (\<lambda>obj. obj\<lparr>name := toLowerCase (toLowerCase type_name)\<rparr>) s)))"
    by (simp add: resolve_and_generate_def str_toLowerCase_def extract_cases Let_def)
  have untyped: "\<not> has_type_name rawData \<longrightarrow>
      resolve_and_generate env phaserObj loadingParticles rawData s = (Some TypeError, s)"
    by (simp add: untyped_response)
  have aborted: "classify env = Inr rawData \<and> \<not> truthy (field rawData ''shouldRemove'') \<and>
    \<not> has_type_name rawData \<and> well_formed s \<longrightarrow>
      processCanvas env s
        = cleanup_after_error (next_ref s) (Suc (next_ref s)) (try_entry env s) \<and>
      children (processCanvas env s) = children s \<and>
      (\<exists>obj. objs (processCanvas env s) (next_ref s) = Some obj \<and> destroyed obj)"
  proof
    assume h: "classify env = Inr rawData \<and> \<not> truthy (field rawData ''shouldRemove'') \<and>
      \<not> has_type_name rawData \<and> well_formed s"
    then have run: "run_pipeline env (next_ref s) (Suc (next_ref s)) (try_entry env s)
        = (Some TypeError, try_entry env s)"
      by (simp add: classified_run untyped_response)
    have obj: "objs (try_entry env s) (next_ref s) = Some (initial_placeholder env)"
      by (simp add: try_entry_fields(1))
    obtain em where em: "particles (try_entry env s) (Suc (next_ref s)) = Some em"
      using try_entry_fields(2) by blast
    from h have wf: "well_formed s" by simp
    note after = aborted_run [OF run obj em try_entry_fields(3) wf]
    show "processCanvas env s
        = cleanup_after_error (next_ref s) (Suc (next_ref s)) (try_entry env s) \<and>
      children (processCanvas env s) = children s \<and>
      (\<exists>obj. objs (processCanvas env s) (next_ref s) = Some obj \<and> destroyed obj)"
    proof (intro conjI)
      show "processCanvas env s
          = cleanup_after_error (next_ref s) (Suc (next_ref s)) (try_entry env s)"
        by (rule after(1))
      show "children (processCanvas env s) = children s"
        by (rule after(2))
      have "destroyed ((stop_effects (stop_blink (initial_placeholder env)))\<lparr>destroyed := True\<rparr>)"
        by simp
      with after(3)
      show "\<exists>obj. objs (processCanvas env s) (next_ref s) = Some obj \<and> destroyed obj"
        by blast
    qed
  qed
  have blank: "\<not> truthy (analyzeDrawingWithOllama (ollama_fetch env)) \<and>
    sendImageDataToServerForAnalysis (analysis_fetch env) = Inr no_result \<and>
    \<not> truthy no_result \<longrightarrow>
      run_pipeline env phaserObj loadingParticles s
        = (Some (Error ''No response from server''), s)"
    by (simp add: run_pipeline_def classify_no_result)
  show ?thesis
    by (intro conjI)
      (rule total undef null mapped indexed listed other merged typed untyped aborted blank)+
qed

lemma sample_generation:
  "sendToImageGenerationBackend (imageGenerator sample_env) (generation_fetch sample_env)
     = Inr (JStr ''iVBORw0KGgoAAAANSUhEUg'')"
  "fst (apply_generated sample_env r lp additional final (JStr ''iVBORw0KGgoAAAANSUhEUg'') s')
     = None"
  by (simp_all add: sendToImageGenerationBackend_def sample_env_def startsWith_def
      apply_generated_def member_def show_static_image_def Let_def)

lemma sample_zero_at:
  "sample_zero ''burns'' = Some (JBool False)" "sample_zero ''ice'' = Some (JBool False)"
  "sample_zero ''sparkly'' = None" "''burns'' \<in> dom sample_zero"
  "''sparkly'' \<notin> dom sample_zero"
  "sample_default ''falls'' = Some (JBool True)"
  by (simp_all add: sample_zero_def sample_default_def sample_vocabulary_def dom_def)

lemma untyped_classification:
  "classify untyped_env = Inr untyped_reply"
  "\<not> truthy (field untyped_reply ''shouldRemove'')" "\<not> has_type_name untyped_reply"
  "\<not> has_property_map untyped_reply" "\<not> has_attribute_list untyped_reply"
  by (simp_all add: classify_def untyped_env_def untyped_reply_def sample_env_def
      analyzeDrawingWithOllama_def sendImageDataToServerForAnalysis_def unavailable_def
      json_reply_def has_type_name_def has_property_map_def has_attribute_list_def)

lemma blank_classification:
  "\<not> truthy (analyzeDrawingWithOllama (ollama_fetch blank_env))"
  "sendImageDataToServerForAnalysis (analysis_fetch blank_env) = Inr JUndefined"
  by (simp_all add: blank_env_def sample_env_def analyzeDrawingWithOllama_def
      sendImageDataToServerForAnalysis_def unavailable_def)

lemma sample_scene_shape:
  "well_formed sample_scene" "children sample_scene = [0]" "next_ref sample_scene = 1"
  by (simp_all add: well_formed_def sample_scene_def)

theorem extract_total_run_needs_type_witness:
  "has_property_map (JObj [(''type'', JStr ''torch''),
                          (''properties'', JObj [(''burns'', JBool True)])]) \<and>
   has_attribute_list (JObj [(''type'', JStr ''torch''),
                            (''attributes'', JArr [JStr ''burns'', JStr ''sparkly''])]) \<and>
   \<not> has_property_map (JObj [(''type'', JStr ''Wand'')]) \<and>
   \<not> has_attribute_list (JObj [(''type'', JStr ''Wand'')]) \<and>
   field (JObj [(''type'', JStr ''Wand'')]) ''type'' = JStr ''Wand'' \<and>
   (\<exists>p. extractPropertiesFromGeminiData sample_zero sample_default
          (JObj [(''type'', JStr ''torch''),
                 (''properties'', JObj [(''burns'', JBool True)])]) = Inr p \<and>
        p ''burns'' = Some (JBool True) \<and> p ''ice'' = Some (JBool False)) \<and>
   (\<exists>p. extractPropertiesFromGeminiData sample_zero sample_default
          (JObj [(''type'', JStr ''torch''),
                 (''attributes'', JArr [JStr ''burns'', JStr ''sparkly''])]) = Inr p \<and>
        p ''burns'' = Some (JBool True) \<and> p ''ice'' = Some (JBool False) \<and>
        p ''sparkly'' = None) \<and>
   extractPropertiesFromGeminiData sample_zero sample_default (JObj [(''type'', JStr ''Wand'')])
     = Inr sample_default \<and>
   field indexed_reply ''properties'' = JArr [JStr ''burns''] \<and>
   (\<exists>p. extractPropertiesFromGeminiData sample_zero sample_default indexed_reply = Inr p \<and>
        p ''0'' = Some (JStr ''burns'')) \<and>
   mergeProperties sample_default [''burns'' \<mapsto> JBool True] ''burns'' = Some (JBool True) \<and>
   mergeProperties sample_default [''burns'' \<mapsto> JBool True] ''falls'' = Some (JBool True) \<and>
   mergeProperties sample_default [''burns'' \<mapsto> JBool True] ''user_generated_obj''
     = Some (JBool True) \<and>
   fst (resolve_and_generate sample_env 1 2 (JObj [(''type'', JStr ''Wand'')]) sample_scene)
     = None \<and>
   classify untyped_env = Inr untyped_reply \<and>
   \<not> truthy (field untyped_reply ''shouldRemove'') \<and> \<not> has_type_name untyped_reply \<and>
   well_formed sample_scene \<and>
   fst (resolve_and_generate untyped_env 1 2 untyped_reply sample_scene) = Some TypeError \<and>
   children (processCanvas untyped_env sample_scene) = [0] \<and>
   (\<exists>obj. objs (processCanvas untyped_env sample_scene) 1 = Some obj \<and> destroyed obj) \<and>
   \<not> truthy (analyzeDrawingWithOllama (ollama_fetch blank_env)) \<and>
   sendImageDataToServerForAnalysis (analysis_fetch blank_env) = Inr JUndefined \<and>
   \<not> truthy JUndefined \<and>
   fst (run_pipeline blank_env 1 2 sample_scene) = Some (Error ''No response from server'')"
proof -
  let ?mapped = "JObj [(''type'', JStr ''torch''),
                       (''properties'', JObj [(''burns'', JBool True)])]"
  let ?listed = "JObj [(''type'', JStr ''torch''),
                       (''attributes'', JArr [JStr ''burns'', JStr ''sparkly''])]"
  let ?other = "JObj [(''type'', JStr ''Wand'')]"
  have a: "has_property_map ?mapped"
    by (simp add: has_property_map_def)
  have b: "has_attribute_list ?listed"
    by (simp add: has_attribute_list_def has_property_map_def)
  have c: "\<not> has_property_map ?other \<and> \<not> has_attribute_list ?other"
    by (simp add: has_attribute_list_def has_property_map_def)
  have c': "field ?other ''type'' = JStr ''Wand''"
    by simp
  have d: "field indexed_reply ''properties'' = JArr [JStr ''burns'']"
    by (simp add: indexed_reply_def)
  have env: "getZeroWorldObjProp sample_env = sample_zero"
    "getDefaultWorldObjProp sample_env = sample_default"
    by (simp_all add: sample_env_def)
  note at_mapped = extract_total_run_needs_type [where zeroProp = sample_zero
      and defaultProp = sample_default and rawData = ?mapped
      and additionalProperties = "[''burns'' \<mapsto> JBool True]" and type_name = "''Wand''"
      and env = sample_env and phaserObj = 1 and loadingParticles = 2 and s = sample_scene
      and x = "JStr ''burns''" and xs = "[]" and no_result = JUndefined]
  note at_listed = extract_total_run_needs_type [where zeroProp = sample_zero
      and defaultProp = sample_default and rawData = ?listed
      and additionalProperties = "[''burns'' \<mapsto> JBool True]" and type_name = "''Wand''"
      and env = sample_env and phaserObj = 1 and loadingParticles = 2 and s = sample_scene
      and x = "JStr ''burns''" and xs = "[]" and no_result = JUndefined]
  note at_other = extract_total_run_needs_type [where zeroProp = sample_zero
      and defaultProp = sample_default and rawData = ?other
      and additionalProperties = "[''burns'' \<mapsto> JBool True]" and type_name = "''Wand''"
      and env = sample_env and phaserObj = 1 and loadingParticles = 2 and s = sample_scene
      and x = "JStr ''burns''" and xs = "[]" and no_result = JUndefined]
  note at_indexed = extract_total_run_needs_type [where zeroProp = sample_zero
      and defaultProp = sample_default and rawData = indexed_reply
      and additionalProperties = "[''burns'' \<mapsto> JBool True]" and type_name = "''Wand''"
      and env = sample_env and phaserObj = 1 and loadingParticles = 2 and s = sample_scene
      and x = "JStr ''burns''" and xs = "[]" and no_result = JUndefined]
  note at_untyped = extract_total_run_needs_type [where zeroProp = sample_zero
      and defaultProp = sample_default and rawData = untyped_reply
      and additionalProperties = "[''burns'' \<mapsto> JBool True]" and type_name = "''Wand''"
      and env = untyped_env and phaserObj = 1 and loadingParticles = 2 and s = sample_scene
      and x = "JStr ''burns''" and xs = "[]" and no_result = JUndefined]
  note at_blank = extract_total_run_needs_type [where zeroProp = sample_zero
      and defaultProp = sample_default and rawData = untyped_reply
      and additionalProperties = "[''burns'' \<mapsto> JBool True]" and type_name = "''Wand''"
      and env = blank_env and phaserObj = 1 and loadingParticles = 2 and s = sample_scene
      and x = "JStr ''burns''" and xs = "[]" and no_result = JUndefined]
  from at_mapped a obtain p where p:
    "extractPropertiesFromGeminiData sample_zero sample_default ?mapped = Inr p"
    "\<forall>k. p k = (case own_props (field ?mapped ''properties'') k of
                    Some v \<Rightarrow> Some v | None \<Rightarrow> sample_zero k)"
    by blast
  from p(2) have "p ''burns'' = Some (JBool True) \<and> p ''ice'' = Some (JBool False)"
    by (simp add: sample_zero_at)
  with p(1) have mapped: "\<exists>p. extractPropertiesFromGeminiData sample_zero sample_default
      ?mapped = Inr p \<and> p ''burns'' = Some (JBool True) \<and> p ''ice'' = Some (JBool False)"
    by blast
  from at_listed b obtain q where q:
    "extractPropertiesFromGeminiData sample_zero sample_default ?listed = Inr q"
    "\<forall>k. q k = (if k \<in> dom sample_zero \<and> JStr k \<in> set (elements (field ?listed ''attributes''))
                  then Some (JBool True) else sample_zero k)"
    by blast
  from q(2) sample_zero_at(4,5)
  have "q ''burns'' = Some (JBool True) \<and> q ''ice'' = Some (JBool False) \<and>
      q ''sparkly'' = None"
    by (simp add: sample_zero_at(1-3))
  with q(1) have listed: "\<exists>p. extractPropertiesFromGeminiData sample_zero sample_default
      ?listed = Inr p \<and> p ''burns'' = Some (JBool True) \<and> p ''ice'' = Some (JBool False) \<and>
      p ''sparkly'' = None"
    by blast
  from at_other c have other: "extractPropertiesFromGeminiData sample_zero sample_default
      ?other = Inr sample_default"
    by blast
  from at_indexed d have indexed:
    "\<exists>p. extractPropertiesFromGeminiData sample_zero sample_default indexed_reply = Inr p \<and>
        p ''0'' = Some (JStr ''burns'')"
    by blast
  from at_other have merged_all:
    "\<forall>k. mergeProperties sample_default [''burns'' \<mapsto> JBool True] k =
          (if k = ''user_generated_obj'' then Some (JBool True)
           else case [''burns'' \<mapsto> JBool True] k of
                  Some v \<Rightarrow> Some v
                | None \<Rightarrow> sample_default k)"
    by blast
  have merged1: "mergeProperties sample_default [''burns'' \<mapsto> JBool True] ''burns''
      = Some (JBool True)"
    by (simp add: merged_all)
  have merged2: "mergeProperties sample_default [''burns'' \<mapsto> JBool True] ''falls''
      = Some (JBool True)"
    by (simp add: merged_all sample_zero_at(6))
  have merged3: "mergeProperties sample_default [''burns'' \<mapsto> JBool True]
      ''user_generated_obj'' = Some (JBool True)"
    by (simp add: merged_all)
  from at_other c' obtain p' where
    "resolve_and_generate sample_env 1 2 ?other sample_scene =
      (case sendToImageGenerationBackend (imageGenerator sample_env)
              (generation_fetch sample_env) of
         Inl e \<Rightarrow>
           (Some e, update_obj 1 (\<lambda>obj. obj\<lparr>name := toLowerCase (toLowerCase ''Wand'')\<rparr>)
                      sample_scene)
       | Inr generatedImageData \<Rightarrow>
           apply_generated sample_env 1 2 p'
             (mergeProperties (getDefaultWorldObjProp sample_env) p')
             generatedImageData
             (update_obj 1 (\<lambda>obj. obj\<lparr>name := toLowerCase (toLowerCase ''Wand'')\<rparr>)
                sample_scene))"
    by blast
  then have run: "fst (resolve_and_generate sample_env 1 2 ?other sample_scene) = None"
    by (simp add: sample_generation)
  from at_untyped untyped_classification(3)
  have thrown: "resolve_and_generate untyped_env 1 2 untyped_reply sample_scene
      = (Some TypeError, sample_scene)"
    by blast
  then have thrown': "fst (resolve_and_generate untyped_env 1 2 untyped_reply sample_scene)
      = Some TypeError"
    by simp
  from at_untyped untyped_classification(1-3) sample_scene_shape(1)
  have "children (processCanvas untyped_env sample_scene) = children sample_scene \<and>
      (\<exists>obj. objs (processCanvas untyped_env sample_scene) (next_ref sample_scene) = Some obj \<and>
         destroyed obj)"
    by blast
  then have aborted: "children (processCanvas untyped_env sample_scene) = [0]"
    "\<exists>obj. objs (processCanvas untyped_env sample_scene) 1 = Some obj \<and> destroyed obj"
    by (simp_all add: sample_scene_shape)
  have falsy: "\<not> truthy JUndefined"
    by simp
  from at_blank blank_classification falsy
  have "run_pipeline blank_env 1 2 sample_scene
      = (Some (Error ''No response from server''), sample_scene)"
    by blast
  then have blank: "fst (run_pipeline blank_env 1 2 sample_scene)
      = Some (Error ''No response from server'')"
    by simp
  show ?thesis
    by (intro conjI)
      (rule a b c [THEN conjunct1] c [THEN conjunct2] c' mapped listed other d indexed
        merged1 merged2 merged3 run untyped_classification(1-3) sample_scene_shape(1)
        thrown' aborted blank_classification falsy blank)+
qed

theorem unknown_shape_aborts_run_counterexample:
  "classify untyped_env = Inr untyped_reply \<and>
   \<not> has_property_map untyped_reply \<and> \<not> has_attribute_list untyped_reply \<and>
   extractPropertiesFromGeminiData sample_zero sample_default untyped_reply
     = Inr sample_default \<and>
   fst (run_pipeline untyped_env 1 2 (try_entry untyped_env sample_scene)) = Some TypeError \<and>
   children (processCanvas untyped_env sample_scene) = [0] \<and>
   destroyed (the (objs (processCanvas untyped_env sample_scene) 1)) \<and>
   extractPropertiesFromGeminiData sample_zero sample_default JUndefined
     = Inr sample_default \<and>
   classify blank_env = Inl (Error ''No response from server'') \<and>
   children (processCanvas blank_env sample_scene) = [0] \<and>
   destroyed (the (objs (processCanvas blank_env sample_scene) 1)) \<and>
   field indexed_reply ''properties'' = JArr [JStr ''burns''] \<and>
   projr (extractPropertiesFromGeminiData sample_zero sample_default indexed_reply) ''0''
     = Some (JStr ''burns'') \<and>
   sample_default ''0'' = None"
proof -
  have shape: "classify untyped_env = Inr untyped_reply"
    "\<not> has_property_map untyped_reply" "\<not> has_attribute_list untyped_reply"
    by (rule untyped_classification)+
  have fallback: "extractPropertiesFromGeminiData sample_zero sample_default untyped_reply
      = Inr sample_default"
    by (simp add: extract_cases shape)
  have thrown: "fst (run_pipeline untyped_env 1 2 (try_entry untyped_env sample_scene))
      = Some TypeError"
    by (simp add: classified_run [OF untyped_classification(1,2)] untyped_response
        untyped_classification(3))
  have removed: "children (processCanvas untyped_env sample_scene) = [0]"
    by code_simp
  have gone: "destroyed (the (objs (processCanvas untyped_env sample_scene) 1))"
    by code_simp
  have undef: "extractPropertiesFromGeminiData sample_zero sample_default JUndefined
      = Inr sample_default"
    by (simp add: extractPropertiesFromGeminiData_def)
  have blank: "classify blank_env = Inl (Error ''No response from server'')"
    by (simp add: classify_no_result blank_classification)
  have removed': "children (processCanvas blank_env sample_scene) = [0]"
    by code_simp
  have gone': "destroyed (the (objs (processCanvas blank_env sample_scene) 1))"
    by code_simp
  have arr: "field indexed_reply ''properties'' = JArr [JStr ''burns'']"
    by (simp add: indexed_reply_def)
  have first: "projr (extractPropertiesFromGeminiData sample_zero sample_default indexed_reply)
      ''0'' = Some (JStr ''burns'')"
    by code_simp
  have absent: "sample_default ''0'' = None"
    by code_simp
  show ?thesis
    by (intro conjI)
      (rule shape fallback thrown removed gone undef blank removed' gone' arr first absent)+
qed

subsection \<open>A rejection at the generation stage\<close>



















end
